theory Spec2Isabelle
  imports Complex_Main "HOL-Library.Word"
begin

section \<open>Conventions of the embedding\<close>

text \<open>
  The development embeds the provider adapters (\<open>NWSProvider\<close>, \<open>CensusProvider\<close>) and the
  cache wrapper (\<open>RequestCache\<close>) of the weather service.

  \<^item> Go strings are byte sequences: \<open>string\<close> (a \<open>char list\<close>).
  \<^item> \<open>float64\<close> is modelled by \<open>real\<close>: the arithmetic of the adapters (a division by 100
    or 1000, a product with 0.44704, a ratio of two small counts) is taken exactly, so
    the theorems speak about the values before IEEE rounding.
  \<^item> \<open>int\<close> is the 64-bit two's-complement integer of the usual Go targets: \<open>64 word\<close>
    read through \<open>sint\<close> wherever the source computes with it and can overflow.
  \<^item> A Go \<open>error\<close> is its message (\<open>fmt.Errorf\<close> builds nothing else here); a function
    returning \<open>(T, error)\<close> with one of the two always nil returns \<open>error + T\<close>.
  \<^item> \<open>time.Time\<close> is a number of nanoseconds since Go's zero time, so \<open>IsZero\<close> is
    equality with 0.
  \<^item> What the adapters obtain from outside (the HTTP exchange, the JSON decoder, the
    RFC3339 parser, the clock, \<open>fmt\<close>'s number formatting) is a field of a record of
    collaborators passed to every operation. The \<open>context.Context\<close> argument only
    travels to the HTTP client and is left out.
  \<^item> The functions of Go's \<open>strings\<close> package that depend on Unicode
    (\<open>Fields\<close>, \<open>TrimSpace\<close>, \<open>ToUpper\<close>, \<open>ToLower\<close>: white space and letter case of
    every script, over UTF-8) are collaborators too, so that every theorem holds for the
    functions of the library as they are. Their restrictions to ASCII text are defined
    with the test doubles; \<open>strings.Join\<close> and \<open>strconv.Atoi\<close> work on bytes and are
    defined here.
\<close>

type_synonym error = string
type_synonym timestamp = int

section \<open>The byte-level functions of Go's \<open>strings\<close> and \<open>strconv\<close> that the adapters call\<close>

text \<open>\<open>strings.Join\<close>.\<close>

fun Join :: "string list \<Rightarrow> string \<Rightarrow> string" where
  "Join [] sep = []"
| "Join [p] sep = p"
| "Join (p # q # ps) sep = p @ sep @ Join (q # ps) sep"

text \<open>
  \<open>strconv.Atoi\<close>: an optional sign, then one or more decimal digits and nothing else;
  a value outside the 64-bit range is an error as well. \<open>None\<close> stands for the error.
\<close>

definition isDigit :: "char \<Rightarrow> bool" where
  "isDigit c = (48 \<le> (of_char c :: nat) \<and> (of_char c :: nat) \<le> 57)"

definition digitsValue :: "string \<Rightarrow> int" where
  "digitsValue ds = foldl (\<lambda>n ch. n * 10 + (int (of_char ch) - 48)) 0 ds"

definition Atoi :: "string \<Rightarrow> int option" where
  "Atoi s =
     (let neg = (s \<noteq> [] \<and> hd s = CHR ''-'');
          ds = (if s \<noteq> [] \<and> (hd s = CHR ''-'' \<or> hd s = CHR ''+'') then tl s else s)
      in if ds = [] \<or> \<not> list_all isDigit ds then None
         else (let n = (if neg then - digitsValue ds else digitsValue ds)
               in if - (2 ^ 63) \<le> n \<and> n < 2 ^ 63 then Some n else None))"

section \<open>The canonical records (\<open>internal/models\<close>)\<close>

record Forecast =
  ID :: int
  CityID :: int
  SourceProvider :: string
  ForecastTime :: timestamp
  ValidTime :: timestamp
  Temperature :: real
  FeelsLike :: real
  Humidity :: real
  Pressure :: real
  WindSpeed :: real
  WindDirection :: real
  Visibility :: real
  CloudCover :: real
  Precipitation :: real
  WeatherCode :: string
  Description :: string
  UVIndex :: real
  CreatedAt :: timestamp
  UpdatedAt :: timestamp

text \<open>The zero value of the struct, which a Go composite literal starts from.\<close>

definition zeroForecast :: Forecast where
  "zeroForecast = \<lparr> ID = 0, CityID = 0, SourceProvider = [], ForecastTime = 0, ValidTime = 0,
     Temperature = 0, FeelsLike = 0, Humidity = 0, Pressure = 0, WindSpeed = 0,
     WindDirection = 0, Visibility = 0, CloudCover = 0, Precipitation = 0, WeatherCode = [],
     Description = [], UVIndex = 0, CreatedAt = 0, UpdatedAt = 0 \<rparr>"

text \<open>\<open>Forecast.Validate\<close>; \<open>None\<close> is the nil error.\<close>

definition Validate :: "Forecast \<Rightarrow> error option" where
  "Validate f =
     (if CityID f \<le> 0 then Some ''city_id must be positive''
      else if SourceProvider f = [] then Some ''source_provider is required''
      else if ForecastTime f = 0 then Some ''forecast_time is required''
      else if ValidTime f = 0 then Some ''valid_time is required''
      else if Temperature f < - 273.15 then Some ''temperature cannot be below absolute zero''
      else if Humidity f < 0 \<or> Humidity f > 100 then Some ''humidity must be between 0 and 100''
      else if Pressure f < 0 then Some ''pressure cannot be negative''
      else if WindSpeed f < 0 then Some ''wind_speed cannot be negative''
      else if WindDirection f < 0 \<or> WindDirection f \<ge> 360
        then Some ''wind_direction must be between 0 and 359 degrees''
      else if CloudCover f < 0 \<or> CloudCover f > 100 then Some ''cloud_cover must be between 0 and 100''
      else if Precipitation f < 0 then Some ''precipitation cannot be negative''
      else if UVIndex f < 0 then Some ''uv_index cannot be negative''
      else None)"

section \<open>The weather adapter (\<open>NWSProvider\<close>)\<close>

record NWSPointProperties =
  GridID :: string
  GridX :: int
  GridY :: int
  pt_Forecast :: string
  ForecastHourly :: string
  ObservationStations :: string

record NWSForecastPeriod =
  Number :: int
  Name :: string
  StartTime :: string
  EndTime :: string
  IsDaytime :: bool
  pd_Temperature :: int
  TemperatureUnit :: string
  pd_WindSpeed :: string
  pd_WindDirection :: string
  Icon :: string
  ShortForecast :: string
  DetailedForecast :: string

text \<open>
  \<open>NWSQuantitativeValue.Value\<close> is a \<open>*float64\<close>: \<open>None\<close> is the nil pointer. The unit
  code and the quality-control tag of a quantitative value are never read.
\<close>

record NWSObservationProperties =
  Timestamp :: string
  ob_Temperature :: "real option"
  Dewpoint :: "real option"
  ob_WindDirection :: "real option"
  ob_WindSpeed :: "real option"
  BarometricPressure :: "real option"
  RelativeHumidity :: "real option"
  ob_Visibility :: "real option"
  TextDescription :: string

text \<open>The provider with its collaborators.\<close>

record NWSProvider =
  BaseURL :: string
  UserAgent :: string
  newRequest :: "string \<Rightarrow> error option"
  httpDo :: "string \<Rightarrow> (string \<times> string) list \<Rightarrow> error + (int \<times> string)"
  decodeRaw :: "string \<Rightarrow> error + string"
  unmarshalPoint :: "string \<Rightarrow> error + NWSPointProperties"
  unmarshalStations :: "string \<Rightarrow> error + string list"
  unmarshalObservation :: "string \<Rightarrow> error + NWSObservationProperties"
  unmarshalForecast :: "string \<Rightarrow> error + NWSForecastPeriod list"
  parseRFC3339 :: "string \<Rightarrow> error + timestamp"
  now :: timestamp
  fmt_d :: "int \<Rightarrow> string"
  fmt_f :: "real \<Rightarrow> string"
  strings_Fields :: "string \<Rightarrow> string list"
  strings_ToUpper :: "string \<Rightarrow> string"

definition GetName :: string where
  "GetName = ''NWS''"

definition directions :: "(string \<times> real) list" where
  "directions =
     [(''N'', 0), (''NNE'', 22.5), (''NE'', 45), (''ENE'', 67.5),
      (''E'', 90), (''ESE'', 112.5), (''SE'', 135), (''SSE'', 157.5),
      (''S'', 180), (''SSW'', 202.5), (''SW'', 225), (''WSW'', 247.5),
      (''W'', 270), (''WNW'', 292.5), (''NW'', 315), (''NNW'', 337.5)]"

definition parseWindDirection :: "NWSProvider \<Rightarrow> string \<Rightarrow> real" where
  "parseWindDirection n direction =
     (case map_of directions (strings_ToUpper n direction) of Some deg \<Rightarrow> deg | None \<Rightarrow> 0)"

definition periodToForecast ::
  "NWSProvider \<Rightarrow> NWSForecastPeriod \<Rightarrow> real \<Rightarrow> real \<Rightarrow> error + Forecast" where
  "periodToForecast n period lat lon =
     (case parseRFC3339 n (StartTime period) of
        Inl err \<Rightarrow> Inl (''failed to parse start time: '' @ err)
      | Inr startTime \<Rightarrow>
     (case parseRFC3339 n (EndTime period) of
        Inl err \<Rightarrow> Inl (''failed to parse end time: '' @ err)
      | Inr _ \<Rightarrow>
         (let forecast = zeroForecast \<lparr> SourceProvider := GetName, ForecastTime := now n,
                ValidTime := startTime, Description := DetailedForecast period,
                CreatedAt := now n, UpdatedAt := now n \<rparr>;
              forecast =
                (if TemperatureUnit period = ''F''
                 then forecast \<lparr> Temperature := (real_of_int (pd_Temperature period) - 32) * 5 / 9 \<rparr>
                 else forecast \<lparr> Temperature := real_of_int (pd_Temperature period) \<rparr>);
              forecast =
                (if pd_WindSpeed period \<noteq> [] then
                   (let windParts = strings_Fields n (pd_WindSpeed period)
                    in if length windParts \<ge> 2 then
                         (case Atoi (windParts ! 0) of
                            Some speed \<Rightarrow> forecast \<lparr> WindSpeed := real_of_int speed * 0.44704 \<rparr>
                          | None \<Rightarrow> forecast)
                       else forecast)
                 else forecast)
          in Inr (forecast \<lparr> WindDirection := parseWindDirection n (pd_WindDirection period) \<rparr>))))"

definition observationToForecast ::
  "NWSProvider \<Rightarrow> NWSObservationProperties \<Rightarrow> real \<Rightarrow> real \<Rightarrow> error + Forecast" where
  "observationToForecast n obs lat lon =
     (case (if Timestamp obs \<noteq> [] then parseRFC3339 n (Timestamp obs) else Inr (now n)) of
        Inl err \<Rightarrow> Inl (''failed to parse timestamp: '' @ err)
      | Inr timestamp \<Rightarrow>
         (let forecast = zeroForecast \<lparr> SourceProvider := GetName, ForecastTime := timestamp,
                ValidTime := timestamp, Description := TextDescription obs,
                CreatedAt := now n, UpdatedAt := now n \<rparr>;
              forecast = (case ob_Temperature obs of
                            Some v \<Rightarrow> forecast \<lparr> Temperature := v \<rparr> | None \<Rightarrow> forecast);
              forecast = (case RelativeHumidity obs of
                            Some v \<Rightarrow> forecast \<lparr> Humidity := v \<rparr> | None \<Rightarrow> forecast);
              forecast = (case BarometricPressure obs of
                            Some v \<Rightarrow> forecast \<lparr> Pressure := v / 100 \<rparr> | None \<Rightarrow> forecast);
              forecast = (case ob_WindSpeed obs of
                            Some v \<Rightarrow> forecast \<lparr> WindSpeed := v \<rparr> | None \<Rightarrow> forecast);
              forecast = (case ob_WindDirection obs of
                            Some v \<Rightarrow> forecast \<lparr> WindDirection := v \<rparr> | None \<Rightarrow> forecast);
              forecast = (case ob_Visibility obs of
                            Some v \<Rightarrow> forecast \<lparr> Visibility := v / 1000 \<rparr> | None \<Rightarrow> forecast)
          in Inr forecast))"

text \<open>
  \<open>makeRequest\<close>: build the request, set the two headers, perform the exchange, require
  status 200 and decode the body as one raw JSON value.
\<close>

definition makeRequest :: "NWSProvider \<Rightarrow> string \<Rightarrow> error + string" where
  "makeRequest n url =
     (case newRequest n url of
        Some err \<Rightarrow> Inl (''failed to create request: '' @ err)
      | None \<Rightarrow>
         (case httpDo n url [(''User-Agent'', UserAgent n), (''Accept'', ''application/json'')] of
            Inl err \<Rightarrow> Inl (''HTTP request failed: '' @ err)
          | Inr (status, body) \<Rightarrow>
              if status \<noteq> 200 then Inl (''API request failed with status '' @ fmt_d n status)
              else (case decodeRaw n body of
                      Inl err \<Rightarrow> Inl (''failed to decode response: '' @ err)
                    | Inr result \<Rightarrow> Inr result)))"

definition getGridPoint :: "NWSProvider \<Rightarrow> real \<Rightarrow> real \<Rightarrow> error + NWSPointProperties" where
  "getGridPoint n lat lon =
     (case makeRequest n (BaseURL n @ ''/points/'' @ fmt_f n lat @ '','' @ fmt_f n lon) of
        Inl err \<Rightarrow> Inl err
      | Inr data \<Rightarrow>
         (case unmarshalPoint n data of
            Inl err \<Rightarrow> Inl (''failed to parse point response: '' @ err)
          | Inr point \<Rightarrow> Inr point))"

definition GetCurrentWeather :: "NWSProvider \<Rightarrow> real \<Rightarrow> real \<Rightarrow> error + Forecast" where
  "GetCurrentWeather n lat lon =
     (case getGridPoint n lat lon of
        Inl err \<Rightarrow> Inl (''failed to get grid point: '' @ err)
      | Inr point \<Rightarrow>
     (case makeRequest n (BaseURL n @ ''/gridpoints/'' @ GridID point @ ''/'' @ fmt_d n (GridX point)
                            @ '','' @ fmt_d n (GridY point) @ ''/stations'') of
        Inl err \<Rightarrow> Inl (''failed to get observation stations: '' @ err)
      | Inr stations \<Rightarrow>
     (case unmarshalStations n stations of
        Inl err \<Rightarrow> Inl (''failed to parse stations response: '' @ err)
      | Inr features \<Rightarrow>
     (case features of
        [] \<Rightarrow> Inl ''no observation stations found''
      | stationID # _ \<Rightarrow>
     (case makeRequest n (BaseURL n @ ''/stations/'' @ stationID @ ''/observations/latest'') of
        Inl err \<Rightarrow> Inl (''failed to get current observation: '' @ err)
      | Inr obsData \<Rightarrow>
     (case unmarshalObservation n obsData of
        Inl err \<Rightarrow> Inl (''failed to parse observation response: '' @ err)
      | Inr obsResp \<Rightarrow> observationToForecast n obsResp lat lon))))))"

text \<open>
  The loop of \<open>GetForecast\<close>: \<open>for i := 0; i < maxPeriods; i++\<close>, skipping a period whose
  conversion fails. The index stays below \<open>maxPeriods\<close>, which the caller has capped at
  the number of periods, so \<open>periods[i]\<close> is always in range.
\<close>

function forecastLoop ::
  "NWSProvider \<Rightarrow> NWSForecastPeriod list \<Rightarrow> real \<Rightarrow> real \<Rightarrow> int \<Rightarrow> int \<Rightarrow> Forecast list
     \<Rightarrow> Forecast list" where
  "forecastLoop n periods lat lon maxPeriods i forecasts =
     (if i < maxPeriods then
        (case periodToForecast n (periods ! nat i) lat lon of
           Inl err \<Rightarrow> forecastLoop n periods lat lon maxPeriods (i + 1) forecasts
         | Inr forecast \<Rightarrow> forecastLoop n periods lat lon maxPeriods (i + 1) (forecasts @ [forecast]))
      else forecasts)"
  by pat_completeness auto
termination
  by (relation "measure (\<lambda>(n, periods, lat, lon, maxPeriods, i, forecasts). nat (maxPeriods - i))") auto

declare forecastLoop.simps [simp del]

text \<open>
  \<open>maxPeriods := days * 2\<close> is a product of 64-bit integers and wraps around; the
  comparison with \<open>len(periods)\<close> and the loop bound read it as a signed number.
\<close>

definition maxPeriodsOf :: "64 word \<Rightarrow> NWSForecastPeriod list \<Rightarrow> int" where
  "maxPeriodsOf days periods =
     (let maxPeriods = sint (days * 2)
      in if maxPeriods > int (length periods) then int (length periods) else maxPeriods)"

definition GetForecast :: "NWSProvider \<Rightarrow> real \<Rightarrow> real \<Rightarrow> 64 word \<Rightarrow> error + Forecast list" where
  "GetForecast n lat lon days =
     (case getGridPoint n lat lon of
        Inl err \<Rightarrow> Inl (''failed to get grid point: '' @ err)
      | Inr point \<Rightarrow>
     (case makeRequest n (pt_Forecast point) of
        Inl err \<Rightarrow> Inl (''failed to get forecast: '' @ err)
      | Inr forecastData \<Rightarrow>
     (case unmarshalForecast n forecastData of
        Inl err \<Rightarrow> Inl (''failed to parse forecast response: '' @ err)
      | Inr periods \<Rightarrow>
          Inr (forecastLoop n periods lat lon (maxPeriodsOf days periods) 0 []))))"

section \<open>The geocoding adapter (\<open>CensusProvider\<close>)\<close>

record Place =
  pl_ID :: int
  DisplayName :: string
  AddressLine1 :: string
  AddressLine2 :: string
  pl_City :: string
  Region :: string
  PostalCode :: string
  Country :: string
  CountryCode :: string
  Latitude :: real
  Longitude :: real
  PlaceType :: string
  Confidence :: real
  Source :: string
  SourcePlaceID :: string
  BoundingBox :: string
  pl_CreatedAt :: timestamp
  pl_UpdatedAt :: timestamp

definition zeroPlace :: Place where
  "zeroPlace = \<lparr> pl_ID = 0, DisplayName = [], AddressLine1 = [], AddressLine2 = [], pl_City = [],
     Region = [], PostalCode = [], Country = [], CountryCode = [], Latitude = 0, Longitude = 0,
     PlaceType = [], Confidence = 0, Source = [], SourcePlaceID = [], BoundingBox = [],
     pl_CreatedAt = 0, pl_UpdatedAt = 0 \<rparr>"

record CensusCoordinates =
  X :: real
  Y :: real

record CensusTigerLine =
  Side :: string
  TigerLineId :: string

record CensusAddressComponents =
  Zip :: string
  StreetName :: string
  PreType :: string
  City :: string
  PreDirection :: string
  SuffixDirection :: string
  FromAddress :: string
  State :: string
  SuffixType :: string
  ToAddress :: string
  SuffixQualifier :: string
  PreQualifier :: string

record CensusAddressMatch =
  MatchedAddress :: string
  Coordinates :: CensusCoordinates
  TigerLine :: CensusTigerLine
  AddressComponents :: CensusAddressComponents

record CensusReverseMatch =
  rv_MatchedAddress :: string
  rv_AddressComponents :: CensusAddressComponents
  rv_TigerLine :: CensusTigerLine
  rv_Coordinates :: CensusCoordinates

text \<open>
  The provider with its collaborators. The two decoders return the \<open>addressMatches\<close> of the
  decoded response, the only part of it that is read; \<open>encodeValues\<close> is
  \<open>url.Values.Encode\<close> and \<open>cs_fmt_f6\<close> the format \<open>%.6f\<close>; \<open>cs_TrimSpace\<close>,
  \<open>cs_ToLower\<close> and \<open>cs_Fields\<close> are \<open>strings.TrimSpace\<close>, \<open>strings.ToLower\<close> and
  \<open>strings.Fields\<close>.
\<close>

record CensusProvider =
  cs_BaseURL :: string
  cs_newRequest :: "string \<Rightarrow> error option"
  cs_httpDo :: "string \<Rightarrow> (string \<times> string) list \<Rightarrow> error + (int \<times> string)"
  cs_decodeRaw :: "string \<Rightarrow> error + string"
  unmarshalGeocode :: "string \<Rightarrow> error + CensusAddressMatch list"
  unmarshalReverse :: "string \<Rightarrow> error + CensusReverseMatch list"
  encodeValues :: "(string \<times> string) list \<Rightarrow> string"
  cs_now :: timestamp
  cs_fmt_d :: "int \<Rightarrow> string"
  cs_fmt_f :: "real \<Rightarrow> string"
  cs_fmt_f6 :: "real \<Rightarrow> string"
  cs_TrimSpace :: "string \<Rightarrow> string"
  cs_ToLower :: "string \<Rightarrow> string"
  cs_Fields :: "string \<Rightarrow> string list"

definition cs_GetName :: string where
  "cs_GetName = ''Census''"

definition cs_makeRequest :: "CensusProvider \<Rightarrow> string \<Rightarrow> error + string" where
  "cs_makeRequest c requestURL =
     (case cs_newRequest c requestURL of
        Some err \<Rightarrow> Inl (''failed to create request: '' @ err)
      | None \<Rightarrow>
         (case cs_httpDo c requestURL [(''User-Agent'', ''weather-api/1.0''), (''Accept'', ''application/json'')] of
            Inl err \<Rightarrow> Inl (''HTTP request failed: '' @ err)
          | Inr (status, body) \<Rightarrow>
              if status \<noteq> 200 then Inl (''API request failed with status '' @ cs_fmt_d c status)
              else (case cs_decodeRaw c body of
                      Inl err \<Rightarrow> Inl (''failed to decode response: '' @ err)
                    | Inr result \<Rightarrow> Inr result)))"

definition buildAddressLine1 :: "CensusAddressComponents \<Rightarrow> string" where
  "buildAddressLine1 components =
     (let parts = [];
          parts = (if FromAddress components \<noteq> [] then
                     (if ToAddress components \<noteq> [] \<and> ToAddress components \<noteq> FromAddress components
                      then parts @ [FromAddress components @ ''-'' @ ToAddress components]
                      else parts @ [FromAddress components])
                   else parts);
          parts = (if PreDirection components \<noteq> [] then parts @ [PreDirection components] else parts);
          parts = (if PreType components \<noteq> [] then parts @ [PreType components] else parts);
          parts = (if StreetName components \<noteq> [] then parts @ [StreetName components] else parts);
          parts = (if SuffixType components \<noteq> [] then parts @ [SuffixType components] else parts);
          parts = (if SuffixDirection components \<noteq> [] then parts @ [SuffixDirection components] else parts);
          parts = (if PreQualifier components \<noteq> [] then parts @ [PreQualifier components] else parts);
          parts = (if SuffixQualifier components \<noteq> [] then parts @ [SuffixQualifier components] else parts)
      in Join parts '' '')"

text \<open>The two nested loops of \<open>calculateConfidence\<close>: the inner one stops at the first equal word.\<close>

fun matchesAny :: "string \<Rightarrow> string list \<Rightarrow> bool" where
  "matchesAny originalWord [] = False"
| "matchesAny originalWord (matchedWord # rest) =
     (if originalWord = matchedWord then True else matchesAny originalWord rest)"

fun countCommon :: "string list \<Rightarrow> string list \<Rightarrow> nat \<Rightarrow> nat" where
  "countCommon [] matchedWords commonWords = commonWords"
| "countCommon (originalWord # rest) matchedWords commonWords =
     countCommon rest matchedWords
       (if matchesAny originalWord matchedWords then commonWords + 1 else commonWords)"

definition calculateConfidence :: "CensusProvider \<Rightarrow> string \<Rightarrow> string \<Rightarrow> real" where
  "calculateConfidence c original0 matched0 =
     (let original = cs_ToLower c (cs_TrimSpace c original0);
          matched = cs_ToLower c (cs_TrimSpace c matched0)
      in if original = matched then 1.0
         else (let originalWords = cs_Fields c original;
                   matchedWords = cs_Fields c matched;
                   commonWords = countCommon originalWords matchedWords 0
               in if length originalWords = 0 then 0.5
                  else (let similarity = real commonWords / real (length originalWords)
                        in if similarity < 0.1 then 0.1
                           else if similarity > 0.95 then 0.95
                           else similarity)))"

definition addressMatchToPlace :: "CensusProvider \<Rightarrow> CensusAddressMatch \<Rightarrow> string \<Rightarrow> error + Place" where
  "addressMatchToPlace c match originalAddress =
     Inr (zeroPlace \<lparr> DisplayName := MatchedAddress match,
            AddressLine1 := buildAddressLine1 (AddressComponents match),
            pl_City := City (AddressComponents match),
            Region := State (AddressComponents match),
            PostalCode := Zip (AddressComponents match),
            Country := ''United States'',
            CountryCode := ''US'',
            Latitude := Y (Coordinates match),
            Longitude := X (Coordinates match),
            PlaceType := ''address'',
            Confidence := calculateConfidence c originalAddress (MatchedAddress match),
            Source := cs_GetName,
            SourcePlaceID := TigerLineId (TigerLine match),
            pl_CreatedAt := cs_now c,
            pl_UpdatedAt := cs_now c \<rparr>)"

definition reverseMatchToPlace :: "CensusProvider \<Rightarrow> CensusReverseMatch \<Rightarrow> real \<Rightarrow> real \<Rightarrow> error + Place" where
  "reverseMatchToPlace c match lat lon =
     Inr (zeroPlace \<lparr> DisplayName := rv_MatchedAddress match,
            AddressLine1 := buildAddressLine1 (rv_AddressComponents match),
            pl_City := City (rv_AddressComponents match),
            Region := State (rv_AddressComponents match),
            PostalCode := Zip (rv_AddressComponents match),
            Country := ''United States'',
            CountryCode := ''US'',
            Latitude := lat,
            Longitude := lon,
            PlaceType := ''address'',
            Confidence := 0.9,
            Source := cs_GetName,
            SourcePlaceID := TigerLineId (rv_TigerLine match),
            pl_CreatedAt := cs_now c,
            pl_UpdatedAt := cs_now c \<rparr>)"

text \<open>The loop of \<open>GeocodeAddress\<close> over the matches, skipping a match whose conversion fails.\<close>

fun placesLoop :: "CensusProvider \<Rightarrow> string \<Rightarrow> CensusAddressMatch list \<Rightarrow> Place list \<Rightarrow> Place list" where
  "placesLoop c address [] places = places"
| "placesLoop c address (match # rest) places =
     (case addressMatchToPlace c match address of
        Inl err \<Rightarrow> placesLoop c address rest places
      | Inr place \<Rightarrow> placesLoop c address rest (places @ [place]))"

definition geocodeURL :: "CensusProvider \<Rightarrow> string \<Rightarrow> string" where
  "geocodeURL c address =
     cs_BaseURL c @ ''/locations/onelineaddress?'' @
       encodeValues c [(''address'', address), (''format'', ''json''),
                       (''benchmark'', ''2020''), (''vintage'', ''Current_Current'')]"

definition GeocodeAddress :: "CensusProvider \<Rightarrow> string \<Rightarrow> error + Place list" where
  "GeocodeAddress c address =
     (case cs_makeRequest c (geocodeURL c address) of
        Inl err \<Rightarrow> Inl (''geocoding request failed: '' @ err)
      | Inr data \<Rightarrow>
     (case unmarshalGeocode c data of
        Inl err \<Rightarrow> Inl (''failed to parse geocoding response: '' @ err)
      | Inr addressMatches \<Rightarrow>
         (let places = placesLoop c address addressMatches []
          in if length places = 0
             then Inl (''no geocoding results found for address: '' @ address)
             else Inr places)))"

definition reverseURL :: "CensusProvider \<Rightarrow> real \<Rightarrow> real \<Rightarrow> string" where
  "reverseURL c lat lon =
     cs_BaseURL c @ ''/locations/reversegeocoding?'' @
       encodeValues c [(''x'', cs_fmt_f6 c lon), (''y'', cs_fmt_f6 c lat), (''format'', ''json''),
                       (''benchmark'', ''2020''), (''vintage'', ''Current_Current'')]"

definition ReverseGeocode :: "CensusProvider \<Rightarrow> real \<Rightarrow> real \<Rightarrow> error + Place" where
  "ReverseGeocode c lat lon =
     (case cs_makeRequest c (reverseURL c lat lon) of
        Inl err \<Rightarrow> Inl (''reverse geocoding request failed: '' @ err)
      | Inr data \<Rightarrow>
     (case unmarshalReverse c data of
        Inl err \<Rightarrow> Inl (''failed to parse reverse geocoding response: '' @ err)
      | Inr addressMatches \<Rightarrow>
         (case addressMatches of
            [] \<Rightarrow> Inl (''no reverse geocoding results found for coordinates: '' @
                         cs_fmt_f c lat @ '', '' @ cs_fmt_f c lon)
          | match # _ \<Rightarrow> reverseMatchToPlace c match lat lon)))"

section \<open>The cache wrapper (\<open>RequestCache\<close>)\<close>

text \<open>
  The \<open>KVStore\<close> interface: every method acts on the state \<open>'s\<close> of the store and returns
  what Go returns, a value together with an error that may be nil (\<open>None\<close>). A
  \<open>time.Duration\<close> is a number of nanoseconds; \<open>'c\<close> is the context.
\<close>

type_synonym bytes = string
type_synonym duration = int

record ('c, 's) KVStore =
  kv_Get :: "'c \<Rightarrow> string \<Rightarrow> 's \<Rightarrow> (bytes \<times> error option) \<times> 's"
  kv_Set :: "'c \<Rightarrow> string \<Rightarrow> bytes \<Rightarrow> duration \<Rightarrow> 's \<Rightarrow> error option \<times> 's"
  kv_Delete :: "'c \<Rightarrow> string \<Rightarrow> 's \<Rightarrow> error option \<times> 's"
  kv_Exists :: "'c \<Rightarrow> string \<Rightarrow> 's \<Rightarrow> (bool \<times> error option) \<times> 's"
  kv_SetNX :: "'c \<Rightarrow> string \<Rightarrow> bytes \<Rightarrow> duration \<Rightarrow> 's \<Rightarrow> (bool \<times> error option) \<times> 's"
  kv_GetTTL :: "'c \<Rightarrow> string \<Rightarrow> 's \<Rightarrow> (duration \<times> error option) \<times> 's"
  kv_Clear :: "'c \<Rightarrow> 's \<Rightarrow> error option \<times> 's"
  kv_Close :: "'s \<Rightarrow> error option \<times> 's"

record ('c, 's) RequestCache =
  store :: "('c, 's) KVStore"
  prefix :: string

definition prefixKey :: "('c, 's) RequestCache \<Rightarrow> string \<Rightarrow> string" where
  "prefixKey c key = (if prefix c = [] then key else prefix c @ '':'' @ key)"

definition rc_Get :: "('c, 's) RequestCache \<Rightarrow> 'c \<Rightarrow> string \<Rightarrow> 's \<Rightarrow> (bytes \<times> error option) \<times> 's" where
  "rc_Get c ctx key = kv_Get (store c) ctx (prefixKey c key)"

definition rc_Set ::
  "('c, 's) RequestCache \<Rightarrow> 'c \<Rightarrow> string \<Rightarrow> bytes \<Rightarrow> duration \<Rightarrow> 's \<Rightarrow> error option \<times> 's" where
  "rc_Set c ctx key val ttl = kv_Set (store c) ctx (prefixKey c key) val ttl"

definition rc_Delete :: "('c, 's) RequestCache \<Rightarrow> 'c \<Rightarrow> string \<Rightarrow> 's \<Rightarrow> error option \<times> 's" where
  "rc_Delete c ctx key = kv_Delete (store c) ctx (prefixKey c key)"

definition rc_Exists ::
  "('c, 's) RequestCache \<Rightarrow> 'c \<Rightarrow> string \<Rightarrow> 's \<Rightarrow> (bool \<times> error option) \<times> 's" where
  "rc_Exists c ctx key = kv_Exists (store c) ctx (prefixKey c key)"

definition rc_SetNX ::
  "('c, 's) RequestCache \<Rightarrow> 'c \<Rightarrow> string \<Rightarrow> bytes \<Rightarrow> duration \<Rightarrow> 's
     \<Rightarrow> (bool \<times> error option) \<times> 's" where
  "rc_SetNX c ctx key val ttl = kv_SetNX (store c) ctx (prefixKey c key) val ttl"

definition rc_GetTTL ::
  "('c, 's) RequestCache \<Rightarrow> 'c \<Rightarrow> string \<Rightarrow> 's \<Rightarrow> (duration \<times> error option) \<times> 's" where
  "rc_GetTTL c ctx key = kv_GetTTL (store c) ctx (prefixKey c key)"

definition rc_Clear :: "('c, 's) RequestCache \<Rightarrow> 'c \<Rightarrow> 's \<Rightarrow> error option \<times> 's" where
  "rc_Clear c ctx = kv_Clear (store c) ctx"

definition rc_Close :: "('c, 's) RequestCache \<Rightarrow> 's \<Rightarrow> error option \<times> 's" where
  "rc_Close c = kv_Close (store c)"

section \<open>Notions used to state the properties\<close>

text \<open>
  The sixteen compass points in clockwise order from North, as the documentation of the
  mapping lists them: point number \<open>i\<close> stands for \<open>22.5 * i\<close> degrees.
\<close>

definition compass_points :: "string list" where
  "compass_points =
     [''N'', ''NNE'', ''NE'', ''ENE'', ''E'', ''ESE'', ''SE'', ''SSE'',
      ''S'', ''SSW'', ''SW'', ''WSW'', ''W'', ''WNW'', ''NW'', ''NNW'']"

text \<open>Both timestamps of a period parse as RFC3339.\<close>

definition timestampsParse :: "NWSProvider \<Rightarrow> NWSForecastPeriod \<Rightarrow> bool" where
  "timestampsParse n period =
     (\<not> isl (parseRFC3339 n (StartTime period)) \<and> \<not> isl (parseRFC3339 n (EndTime period)))"

text \<open>The periods that the loop of \<open>GetForecast\<close> reads: those at the indices below \<open>maxPeriods\<close>.\<close>

definition examinedPeriods :: "64 word \<Rightarrow> NWSForecastPeriod list \<Rightarrow> NWSForecastPeriod list" where
  "examinedPeriods days periods = take (nat (maxPeriodsOf days periods)) periods"

text \<open>The invariant of the data model on a canonical Forecast.\<close>

definition forecast_invariant :: "Forecast \<Rightarrow> bool" where
  "forecast_invariant f =
     (- 273.15 \<le> Temperature f \<and> 0 \<le> Humidity f \<and> Humidity f \<le> 100
      \<and> 0 \<le> CloudCover f \<and> CloudCover f \<le> 100
      \<and> 0 \<le> WindDirection f \<and> WindDirection f < 360)"

text \<open>The same bounds on what the upstream service sent, where it sent a value.\<close>

definition observation_in_range :: "NWSObservationProperties \<Rightarrow> bool" where
  "observation_in_range obs =
     ((case ob_Temperature obs of None \<Rightarrow> True | Some v \<Rightarrow> - 273.15 \<le> v)
      \<and> (case RelativeHumidity obs of None \<Rightarrow> True | Some v \<Rightarrow> 0 \<le> v \<and> v \<le> 100)
      \<and> (case ob_WindDirection obs of None \<Rightarrow> True | Some v \<Rightarrow> 0 \<le> v \<and> v < 360))"

definition period_temperature_ok :: "NWSForecastPeriod \<Rightarrow> bool" where
  "period_temperature_ok period =
     (if TemperatureUnit period = ''F''
      then - 273.15 \<le> (real_of_int (pd_Temperature period) - 32) * 5 / 9
      else - 273.15 \<le> real_of_int (pd_Temperature period))"

text \<open>
  The house-number part of an address line as the specification words it:
  \<open>{from}-{to}\<close> if the to-address is non-empty and differs from the from-address, else
  \<open>{from}\<close>; and the address line built from it.
\<close>

definition houseNumberRange_spec :: "CensusAddressComponents \<Rightarrow> string" where
  "houseNumberRange_spec components =
     (if ToAddress components \<noteq> [] \<and> ToAddress components \<noteq> FromAddress components
      then FromAddress components @ ''-'' @ ToAddress components
      else FromAddress components)"

definition addressLine_spec :: "CensusAddressComponents \<Rightarrow> string" where
  "addressLine_spec components =
     Join (filter (\<lambda>part. part \<noteq> [])
       [houseNumberRange_spec components, PreDirection components, PreType components,
        StreetName components, SuffixType components, SuffixDirection components,
        PreQualifier components, SuffixQualifier components]) '' ''"

text \<open>The house-number part as the code renders it: nothing without a from-address.\<close>

definition houseNumberRange :: "CensusAddressComponents \<Rightarrow> string" where
  "houseNumberRange components =
     (if FromAddress components = [] then []
      else if ToAddress components \<noteq> [] \<and> ToAddress components \<noteq> FromAddress components
      then FromAddress components @ ''-'' @ ToAddress components
      else FromAddress components)"


text \<open>A Place whose every field is the one that reverse geocoding derives from a match.\<close>

definition builtFromReverseMatch ::
  "CensusProvider \<Rightarrow> CensusReverseMatch \<Rightarrow> real \<Rightarrow> real \<Rightarrow> Place \<Rightarrow> bool" where
  "builtFromReverseMatch c match lat lon place =
     (pl_ID place = 0
      \<and> DisplayName place = rv_MatchedAddress match
      \<and> AddressLine1 place = buildAddressLine1 (rv_AddressComponents match)
      \<and> AddressLine2 place = []
      \<and> pl_City place = City (rv_AddressComponents match)
      \<and> Region place = State (rv_AddressComponents match)
      \<and> PostalCode place = Zip (rv_AddressComponents match)
      \<and> Country place = ''United States''
      \<and> CountryCode place = ''US''
      \<and> Latitude place = lat
      \<and> Longitude place = lon
      \<and> PlaceType place = ''address''
      \<and> Confidence place = 0.9
      \<and> Source place = ''Census''
      \<and> SourcePlaceID place = TigerLineId (rv_TigerLine match)
      \<and> BoundingBox place = []
      \<and> pl_CreatedAt place = cs_now c
      \<and> pl_UpdatedAt place = cs_now c)"

section \<open>Test doubles\<close>

text \<open>
  Concrete collaborators and responses in the style of the repository's \<open>httptest\<close>
  servers: every request is answered with status 200, and the decoders return fixed
  values. The parser knows the timestamps of the test data.

  The string functions of the doubles are the ASCII ones: white space is the six ASCII
  white-space bytes and letter case is the case of the 26 ASCII letters. On a string
  whose bytes are all below 128 they return what \<open>strings.Fields\<close>, \<open>strings.TrimSpace\<close>,
  \<open>strings.ToUpper\<close> and \<open>strings.ToLower\<close> return.
\<close>

definition asciiSpace :: "char \<Rightarrow> bool" where
  "asciiSpace c = (of_char c \<in> {9, 10, 11, 12, 13, 32 :: nat})"

definition asciiUpper :: "char \<Rightarrow> char" where
  "asciiUpper c = (let n = of_char c :: nat in if 97 \<le> n \<and> n \<le> 122 then char_of (n - 32) else c)"

definition asciiLower :: "char \<Rightarrow> char" where
  "asciiLower c = (let n = of_char c :: nat in if 65 \<le> n \<and> n \<le> 90 then char_of (n + 32) else c)"

definition asciiToUpper :: "string \<Rightarrow> string" where
  "asciiToUpper s = map asciiUpper s"

definition asciiToLower :: "string \<Rightarrow> string" where
  "asciiToLower s = map asciiLower s"

definition asciiTrimSpace :: "string \<Rightarrow> string" where
  "asciiTrimSpace s = rev (dropWhile asciiSpace (rev (dropWhile asciiSpace s)))"

text \<open>The maximal runs of bytes that are not ASCII white space, in order.\<close>

fun asciiFieldsFrom :: "string \<Rightarrow> string \<Rightarrow> string list" where
  "asciiFieldsFrom cur [] = (if cur = [] then [] else [cur])"
| "asciiFieldsFrom cur (c # cs) =
     (if asciiSpace c then (if cur = [] then asciiFieldsFrom [] cs else cur # asciiFieldsFrom [] cs)
      else asciiFieldsFrom (cur @ [c]) cs)"

definition asciiFields :: "string \<Rightarrow> string list" where
  "asciiFields s = asciiFieldsFrom [] s"

definition exampleParse :: "string \<Rightarrow> error + timestamp" where
  "exampleParse s =
     (if s = ''2024-01-15T06:00:00-05:00'' then Inr 63840913200000000000
      else if s = ''2024-01-15T12:00:00-05:00'' then Inr 63840934800000000000
      else if s = ''2024-01-15T18:00:00-05:00'' then Inr 63840956400000000000
      else if s = ''2024-01-16T06:00:00-05:00'' then Inr 63840999600000000000
      else Inl ''cannot parse as RFC3339'')"

definition examplePoint :: NWSPointProperties where
  "examplePoint = \<lparr> GridID = ''TOP'', GridX = 31, GridY = 80,
     pt_Forecast = ''https://api.weather.gov/gridpoints/TOP/31,80/forecast'',
     ForecastHourly = [], ObservationStations = ''/gridpoints/TOP/31,80/stations'' \<rparr>"

definition todayPeriod :: NWSForecastPeriod where
  "todayPeriod = \<lparr> Number = 1, Name = ''Today'', StartTime = ''2024-01-15T06:00:00-05:00'',
     EndTime = ''2024-01-15T18:00:00-05:00'', IsDaytime = True, pd_Temperature = 75,
     TemperatureUnit = ''F'', pd_WindSpeed = ''10 mph'', pd_WindDirection = ''SW'',
     Icon = [], ShortForecast = ''Sunny'', DetailedForecast = ''Sunny skies with light winds'' \<rparr>"

definition tonightPeriod :: NWSForecastPeriod where
  "tonightPeriod = \<lparr> Number = 2, Name = ''Tonight'', StartTime = ''2024-01-15T18:00:00-05:00'',
     EndTime = ''2024-01-16T06:00:00-05:00'', IsDaytime = False, pd_Temperature = 60,
     TemperatureUnit = ''F'', pd_WindSpeed = ''5 mph'', pd_WindDirection = ''W'',
     Icon = [], ShortForecast = ''Clear'', DetailedForecast = ''Clear skies overnight'' \<rparr>"

definition breezyPeriod :: NWSForecastPeriod where
  "breezyPeriod = todayPeriod \<lparr> pd_WindSpeed := ''10 to 15 mph'', pd_WindDirection := ''sw'' \<rparr>"

definition brokenPeriod :: NWSForecastPeriod where
  "brokenPeriod = todayPeriod \<lparr> Number := 2, StartTime := ''this afternoon'' \<rparr>"

definition singleTokenPeriod :: NWSForecastPeriod where
  "singleTokenPeriod = todayPeriod \<lparr> pd_WindSpeed := ''5'' \<rparr>"

definition exampleObservation :: NWSObservationProperties where
  "exampleObservation = \<lparr> Timestamp = ''2024-01-15T12:00:00-05:00'', ob_Temperature = Some 20.5,
     Dewpoint = None, ob_WindDirection = Some 180, ob_WindSpeed = Some 5.2,
     BarometricPressure = Some 101325, RelativeHumidity = Some 65, ob_Visibility = Some 16000,
     TextDescription = ''Clear skies'' \<rparr>"

definition blankObservation :: NWSObservationProperties where
  "blankObservation = \<lparr> Timestamp = [], ob_Temperature = None, Dewpoint = None,
     ob_WindDirection = None, ob_WindSpeed = None, BarometricPressure = None,
     RelativeHumidity = None, ob_Visibility = None, TextDescription = [] \<rparr>"

definition humidObservation :: NWSObservationProperties where
  "humidObservation = exampleObservation \<lparr> RelativeHumidity := Some 150 \<rparr>"

definition exampleNWS :: NWSProvider where
  "exampleNWS = \<lparr> BaseURL = ''https://api.weather.gov'',
     UserAgent = ''weather-api/1.0 (contact@example.com)'',
     newRequest = (\<lambda>url. None),
     httpDo = (\<lambda>url headers. Inr (200, ''{}'')),
     decodeRaw = Inr,
     unmarshalPoint = (\<lambda>raw. Inr examplePoint),
     unmarshalStations = (\<lambda>raw. Inr [''KTOP'']),
     unmarshalObservation = (\<lambda>raw. Inr exampleObservation),
     unmarshalForecast = (\<lambda>raw. Inr [todayPeriod, tonightPeriod]),
     parseRFC3339 = exampleParse,
     now = 63840934800000000000,
     fmt_d = (\<lambda>i. ''0''),
     fmt_f = (\<lambda>x. ''0.000000''),
     strings_Fields = asciiFields,
     strings_ToUpper = asciiToUpper \<rparr>"

definition humidNWS :: NWSProvider where
  "humidNWS = exampleNWS \<lparr> unmarshalObservation := (\<lambda>raw. Inr humidObservation) \<rparr>"

definition patchyNWS :: NWSProvider where
  "patchyNWS = exampleNWS \<lparr> unmarshalForecast := (\<lambda>raw. Inr [todayPeriod, brokenPeriod, tonightPeriod]) \<rparr>"

definition todayForecast :: Forecast where
  "todayForecast = zeroForecast \<lparr> SourceProvider := ''NWS'',
     ForecastTime := 63840934800000000000, ValidTime := 63840913200000000000,
     Temperature := 215 / 9, WindSpeed := 4.4704, WindDirection := 225,
     Description := ''Sunny skies with light winds'',
     CreatedAt := 63840934800000000000, UpdatedAt := 63840934800000000000 \<rparr>"

definition tonightForecast :: Forecast where
  "tonightForecast = zeroForecast \<lparr> SourceProvider := ''NWS'',
     ForecastTime := 63840934800000000000, ValidTime := 63840956400000000000,
     Temperature := 140 / 9, WindSpeed := 2.2352, WindDirection := 270,
     Description := ''Clear skies overnight'',
     CreatedAt := 63840934800000000000, UpdatedAt := 63840934800000000000 \<rparr>"

definition singleTokenForecast :: Forecast where
  "singleTokenForecast = todayForecast \<lparr> WindSpeed := 0 \<rparr>"

definition currentForecast :: Forecast where
  "currentForecast = zeroForecast \<lparr> SourceProvider := ''NWS'',
     ForecastTime := 63840934800000000000, ValidTime := 63840934800000000000,
     Temperature := 20.5, Humidity := 65, Pressure := 1013.25, WindSpeed := 5.2,
     WindDirection := 180, Visibility := 16, Description := ''Clear skies'',
     CreatedAt := 63840934800000000000, UpdatedAt := 63840934800000000000 \<rparr>"

definition humidForecast :: Forecast where
  "humidForecast = currentForecast \<lparr> Humidity := 150 \<rparr>"

definition zeroComponents :: CensusAddressComponents where
  "zeroComponents = \<lparr> Zip = [], StreetName = [], PreType = [], City = [], PreDirection = [],
     SuffixDirection = [], FromAddress = [], State = [], SuffixType = [], ToAddress = [],
     SuffixQualifier = [], PreQualifier = [] \<rparr>"

definition oakComponents :: CensusAddressComponents where
  "oakComponents = zeroComponents \<lparr> FromAddress := ''100'', ToAddress := ''199'',
     StreetName := ''Oak'', SuffixType := ''Ave'' \<rparr>"

definition broadwayComponents :: CensusAddressComponents where
  "broadwayComponents = zeroComponents \<lparr> StreetName := ''Broadway'' \<rparr>"

definition toOnlyComponents :: CensusAddressComponents where
  "toOnlyComponents = zeroComponents \<lparr> ToAddress := ''199'', StreetName := ''Oak'' \<rparr>"

definition mainStMatch :: CensusAddressMatch where
  "mainStMatch = \<lparr> MatchedAddress = ''123 Main St, Anytown, ST, 12345'',
     Coordinates = \<lparr> X = - 76.6413, Y = 39.0458 \<rparr>,
     TigerLine = \<lparr> Side = [], TigerLineId = ''12345678'' \<rparr>,
     AddressComponents = zeroComponents \<lparr> FromAddress := ''123'', StreetName := ''Main'',
       SuffixType := ''St'', City := ''Anytown'', State := ''ST'', Zip := ''12345'' \<rparr> \<rparr>"

definition mainStReverse :: CensusReverseMatch where
  "mainStReverse = \<lparr> rv_MatchedAddress = ''123 Main St, Anytown, ST, 12345'',
     rv_AddressComponents = AddressComponents mainStMatch,
     rv_TigerLine = \<lparr> Side = [], TigerLineId = ''12345678'' \<rparr>,
     rv_Coordinates = \<lparr> X = - 76.6413, Y = 39.0458 \<rparr> \<rparr>"

definition oakReverse :: CensusReverseMatch where
  "oakReverse = mainStReverse \<lparr> rv_MatchedAddress := ''100-199 Oak Ave, Anytown, ST, 12345'',
     rv_AddressComponents := oakComponents \<rparr>"

definition exampleCensus :: CensusProvider where
  "exampleCensus = \<lparr> cs_BaseURL = ''https://geocoding.geo.census.gov/geocoder'',
     cs_newRequest = (\<lambda>url. None),
     cs_httpDo = (\<lambda>url headers. Inr (200, ''{}'')),
     cs_decodeRaw = Inr,
     unmarshalGeocode = (\<lambda>raw. Inr [mainStMatch]),
     unmarshalReverse = (\<lambda>raw. Inr [mainStReverse, oakReverse]),
     encodeValues = (\<lambda>values. []),
     cs_now = 63840934800000000000,
     cs_fmt_d = (\<lambda>i. ''0''),
     cs_fmt_f = (\<lambda>x. ''0.000000''),
     cs_fmt_f6 = (\<lambda>x. ''0.000000''),
     cs_TrimSpace = asciiTrimSpace,
     cs_ToLower = asciiToLower,
     cs_Fields = asciiFields \<rparr>"

definition emptyCensus :: CensusProvider where
  "emptyCensus = exampleCensus \<lparr> unmarshalGeocode := (\<lambda>raw. Inr []),
     unmarshalReverse := (\<lambda>raw. Inr []) \<rparr>"

text \<open>A store that keeps its entries in an association list and ignores expiry.\<close>

definition listStore :: "(unit, (string \<times> bytes) list) KVStore" where
  "listStore = \<lparr>
     kv_Get = (\<lambda>ctx key s. case map_of s key of
                 None \<Rightarrow> (([], Some ''key not found''), s) | Some v \<Rightarrow> ((v, None), s)),
     kv_Set = (\<lambda>ctx key v ttl s. (None, (key, v) # s)),
     kv_Delete = (\<lambda>ctx key s. (None, filter (\<lambda>entry. fst entry \<noteq> key) s)),
     kv_Exists = (\<lambda>ctx key s. ((map_of s key \<noteq> None, None), s)),
     kv_SetNX = (\<lambda>ctx key v ttl s. if map_of s key \<noteq> None then ((False, None), s)
                                      else ((True, None), (key, v) # s)),
     kv_GetTTL = (\<lambda>ctx key s. ((- 1, None), s)),
     kv_Clear = (\<lambda>ctx s. (None, [])),
     kv_Close = (\<lambda>s. (Some ''connection already closed'', s)) \<rparr>"

definition weatherCache :: "(unit, (string \<times> bytes) list) RequestCache" where
  "weatherCache = \<lparr> store = listStore, prefix = ''weather'' \<rparr>"

definition bareCache :: "(unit, (string \<times> bytes) list) RequestCache" where
  "bareCache = \<lparr> store = listStore, prefix = [] \<rparr>"

section \<open>ASCII letter case\<close>

lemma of_char_asciiUpper:
  "(of_char (asciiUpper c) :: nat) =
     (if 97 \<le> (of_char c :: nat) \<and> (of_char c :: nat) \<le> 122 then of_char c - 32 else of_char c)"
  by (simp add: asciiUpper_def Let_def less_imp_diff_less)

lemma of_char_asciiLower:
  "(of_char (asciiLower c) :: nat) =
     (if 65 \<le> (of_char c :: nat) \<and> (of_char c :: nat) \<le> 90 then of_char c + 32 else of_char c)"
  by (simp add: asciiLower_def Let_def)

lemma char_eqI: "(of_char c :: nat) = of_char d \<Longrightarrow> c = d"
  by simp

lemma asciiUpper_asciiLower: "asciiUpper (asciiLower c) = asciiUpper c"
  by (rule char_eqI) (auto simp add: of_char_asciiUpper of_char_asciiLower)

lemma asciiLower_asciiUpper: "asciiLower (asciiUpper c) = asciiLower c"
  by (rule char_eqI) (auto simp add: of_char_asciiUpper of_char_asciiLower)

lemma asciiToUpper_asciiToLower: "asciiToUpper (asciiToLower s) = asciiToUpper s"
  by (simp add: asciiToUpper_def asciiToLower_def asciiUpper_asciiLower)

lemma asciiToLower_asciiToUpper: "asciiToLower (asciiToUpper s) = asciiToLower s"
  by (simp add: asciiToUpper_def asciiToLower_def asciiLower_asciiUpper)

section \<open>Wind direction and wind speed of a forecast period\<close>

lemma compass_points_upper: "list_all (\<lambda>k. asciiToUpper k = k) compass_points"
  by code_simp

lemma length_compass_points: "length compass_points = 16"
  by (simp add: compass_points_def)

lemma asciiToUpper_compass_point: "i < 16 \<Longrightarrow> asciiToUpper (compass_points ! i) = compass_points ! i"
  using compass_points_upper by (simp add: list_all_length length_compass_points)

lemma directions_keys: "map fst directions = compass_points"
  by (simp add: directions_def compass_points_def)

lemma directions_values: "map snd directions = map (\<lambda>i. 22.5 * real i) [0..<16]"
  by (simp add: directions_def upt_rec)

lemma map_of_directions:
  assumes "i < 16"
  shows "map_of directions (compass_points ! i) = Some (22.5 * real i)"
proof -
  have d: "distinct (map fst directions)"
    by (simp add: directions_def)
  have z: "directions = zip compass_points (map (\<lambda>i. 22.5 * real i) [0..<16])"
    using directions_keys directions_values by (metis zip_map_fst_snd)
  have "(compass_points ! i, 22.5 * real i) \<in> set directions"
    unfolding z using assms
    by (simp add: in_set_zip compass_points_def) (rule exI[of _ i], simp)
  with d show ?thesis by simp
qed

lemma parseWindDirection_point:
  assumes "i < 16" and "strings_ToUpper n direction = compass_points ! i"
  shows "parseWindDirection n direction = 22.5 * real i"
  by (simp add: parseWindDirection_def assms(2) map_of_directions [OF assms(1)])

lemma parseWindDirection_other:
  assumes "strings_ToUpper n direction \<notin> set compass_points"
  shows "parseWindDirection n direction = 0"
proof -
  have "map_of directions (strings_ToUpper n direction) = None"
    using assms by (simp add: map_of_eq_None_iff directions_keys [symmetric])
  then show ?thesis by (simp add: parseWindDirection_def)
qed

lemma parseWindDirection_range:
  "0 \<le> parseWindDirection n direction \<and> parseWindDirection n direction < 360"
proof (cases "strings_ToUpper n direction \<in> set compass_points")
  case True
  then obtain i where "i < 16" and "strings_ToUpper n direction = compass_points ! i"
    by (metis in_set_conv_nth length_compass_points)
  then show ?thesis using parseWindDirection_point [of i n direction] by simp
next
  case False
  then show ?thesis using parseWindDirection_other [of n direction] by simp
qed

text \<open>Where upper-casing is the ASCII one, a direction is matched whatever its letter case.\<close>

lemma asciiToUpper_point_iff:
  assumes "i < 16"
  shows "asciiToUpper direction = compass_points ! i
           \<longleftrightarrow> asciiToLower direction = asciiToLower (compass_points ! i)"
proof
  assume "asciiToUpper direction = compass_points ! i"
  then show "asciiToLower direction = asciiToLower (compass_points ! i)"
    using asciiToLower_asciiToUpper [of direction] by simp
next
  assume "asciiToLower direction = asciiToLower (compass_points ! i)"
  then have "asciiToUpper direction = asciiToUpper (asciiToLower (compass_points ! i))"
    using asciiToUpper_asciiToLower [of direction] by simp
  then show "asciiToUpper direction = compass_points ! i"
    by (simp add: asciiToUpper_asciiToLower asciiToUpper_compass_point assms)
qed

lemma parseWindDirection_ascii_point:
  assumes "strings_ToUpper n direction = asciiToUpper direction"
    and "i < 16" and "asciiToLower direction = asciiToLower (compass_points ! i)"
  shows "parseWindDirection n direction = 22.5 * real i"
  using parseWindDirection_point [OF assms(2), of n direction] assms(1,3)
    asciiToUpper_point_iff [OF assms(2), of direction]
  by simp

lemma parseWindDirection_ascii_other:
  assumes "strings_ToUpper n direction = asciiToUpper direction"
    and "\<forall>i<16. asciiToLower direction \<noteq> asciiToLower (compass_points ! i)"
  shows "parseWindDirection n direction = 0"
proof -
  have "strings_ToUpper n direction \<notin> set compass_points"
  proof
    assume "strings_ToUpper n direction \<in> set compass_points"
    then obtain i where i: "i < 16" and "compass_points ! i = asciiToUpper direction"
      unfolding assms(1) by (auto simp: in_set_conv_nth length_compass_points)
    then have "asciiToLower direction = asciiToLower (compass_points ! i)"
      using asciiToUpper_point_iff [OF i, of direction] by simp
    with assms(2) i show False by blast
  qed
  then show ?thesis by (rule parseWindDirection_other)
qed

lemma periodToForecast_fields:
  assumes "periodToForecast n period lat lon = Inr forecast"
  shows "Humidity forecast = 0" and "CloudCover forecast = 0"
    and "WindDirection forecast = parseWindDirection n (pd_WindDirection period)"
    and "Temperature forecast =
          (if TemperatureUnit period = ''F'' then (real_of_int (pd_Temperature period) - 32) * 5 / 9
           else real_of_int (pd_Temperature period))"
  using assms
  by (auto simp: periodToForecast_def Let_def zeroForecast_def split: sum.splits option.splits if_splits)

lemma periodToForecast_isl:
  "(\<not> isl (periodToForecast n period lat lon)) = timestampsParse n period"
  by (auto simp: periodToForecast_def timestampsParse_def Let_def split: sum.splits option.splits)

lemma periodToForecast_WindSpeed:
  assumes "periodToForecast n period lat lon = Inr forecast"
  shows "WindSpeed forecast =
     (if pd_WindSpeed period \<noteq> [] \<and> 2 \<le> length (strings_Fields n (pd_WindSpeed period))
      then (case Atoi (hd (strings_Fields n (pd_WindSpeed period))) of
              Some speed \<Rightarrow> real_of_int speed * 0.44704 | None \<Rightarrow> 0)
      else 0)"
proof -
  have hd0: "2 \<le> length (strings_Fields n (pd_WindSpeed period)) \<Longrightarrow>
      strings_Fields n (pd_WindSpeed period) ! 0 = hd (strings_Fields n (pd_WindSpeed period))"
    by (cases "strings_Fields n (pd_WindSpeed period)") simp_all
  show ?thesis
    using assms hd0
    by (auto simp: periodToForecast_def Let_def zeroForecast_def split: sum.splits option.splits)
qed

lemma example_tokens:
  "strings_Fields exampleNWS ''10 to 15 mph'' = [''10'', ''to'', ''15'', ''mph'']"
  "Atoi ''10'' = Some 10"
  "strings_Fields exampleNWS ''5'' = [''5'']" "Atoi ''5'' = Some 5"
  "strings_ToUpper exampleNWS ''sw'' = asciiToUpper ''sw''"
  "asciiToLower ''sw'' = asciiToLower (compass_points ! 10)"
  by (simp_all add: exampleNWS_def asciiFields_def asciiSpace_def Atoi_def isDigit_def
      digitsValue_def compass_points_def asciiToLower_def asciiLower_def char_of_def bit_Suc_0_iff)

text \<open>
  C2 (as amended). A period whose two timestamps parse is converted without error,
  whatever its wind strings are. Its wind speed is the first whitespace-delimited token
  of the wind-speed string (the first element of \<open>strings.Fields\<close>), read as a decimal
  integer, times 0.44704, provided the string is not empty, has at least two tokens and
  the first one is such an integer; it is zero in every other case. Its wind direction
  is \<open>22.5 * i\<close> degrees if the upper-cased direction string (\<open>strings.ToUpper\<close>) is the
  \<open>i\<close>-th of the sixteen compass points, and 0 for every other string. Where
  upper-casing is that of the ASCII letters, as it is on every ASCII string, this is
  the match up to letter case: \<open>22.5 * i\<close> for a string equal to the \<open>i\<close>-th point
  after lower-casing both, 0 for a string equal to none.
\<close>

theorem periodToForecast_wind:
  assumes "parseRFC3339 n (StartTime period) = Inr startTime"
    and "parseRFC3339 n (EndTime period) = Inr endTime"
  shows "\<exists>forecast. periodToForecast n period lat lon = Inr forecast \<and>
      (\<forall>speed. pd_WindSpeed period \<noteq> [] \<and> 2 \<le> length (strings_Fields n (pd_WindSpeed period)) \<and>
           Atoi (hd (strings_Fields n (pd_WindSpeed period))) = Some speed \<longrightarrow>
         WindSpeed forecast = real_of_int speed * 0.44704) \<and>
      (pd_WindSpeed period = [] \<or> length (strings_Fields n (pd_WindSpeed period)) < 2 \<or>
           Atoi (hd (strings_Fields n (pd_WindSpeed period))) = None \<longrightarrow>
         WindSpeed forecast = 0) \<and>
      (\<forall>i<16. strings_ToUpper n (pd_WindDirection period) = compass_points ! i \<longrightarrow>
         WindDirection forecast = 22.5 * real i) \<and>
      (strings_ToUpper n (pd_WindDirection period) \<notin> set compass_points \<longrightarrow>
         WindDirection forecast = 0) \<and>
      (strings_ToUpper n (pd_WindDirection period) = asciiToUpper (pd_WindDirection period) \<longrightarrow>
         (\<forall>i<16. asciiToLower (pd_WindDirection period) = asciiToLower (compass_points ! i) \<longrightarrow>
            WindDirection forecast = 22.5 * real i) \<and>
         ((\<forall>i<16. asciiToLower (pd_WindDirection period) \<noteq> asciiToLower (compass_points ! i)) \<longrightarrow>
            WindDirection forecast = 0))"
proof -
  obtain forecast where f: "periodToForecast n period lat lon = Inr forecast"
    using assms by (auto simp: periodToForecast_def Let_def split: option.splits)
  note s = periodToForecast_WindSpeed [OF f]
  note d = periodToForecast_fields(3) [OF f]
  have a1: "\<forall>speed. pd_WindSpeed period \<noteq> [] \<and> 2 \<le> length (strings_Fields n (pd_WindSpeed period)) \<and>
           Atoi (hd (strings_Fields n (pd_WindSpeed period))) = Some speed \<longrightarrow>
         WindSpeed forecast = real_of_int speed * 0.44704"
    using s by simp
  have a2: "pd_WindSpeed period = [] \<or> length (strings_Fields n (pd_WindSpeed period)) < 2 \<or>
           Atoi (hd (strings_Fields n (pd_WindSpeed period))) = None \<longrightarrow>
         WindSpeed forecast = 0"
    using s by auto
  have a3: "\<forall>i<16. strings_ToUpper n (pd_WindDirection period) = compass_points ! i \<longrightarrow>
         WindDirection forecast = 22.5 * real i"
    unfolding d using parseWindDirection_point [of _ n "pd_WindDirection period"] by blast
  have a4: "strings_ToUpper n (pd_WindDirection period) \<notin> set compass_points \<longrightarrow>
         WindDirection forecast = 0"
    unfolding d using parseWindDirection_other [of n "pd_WindDirection period"] by blast
  have a5: "strings_ToUpper n (pd_WindDirection period) = asciiToUpper (pd_WindDirection period) \<longrightarrow>
         (\<forall>i<16. asciiToLower (pd_WindDirection period) = asciiToLower (compass_points ! i) \<longrightarrow>
            WindDirection forecast = 22.5 * real i) \<and>
         ((\<forall>i<16. asciiToLower (pd_WindDirection period) \<noteq> asciiToLower (compass_points ! i)) \<longrightarrow>
            WindDirection forecast = 0)"
    unfolding d
    using parseWindDirection_ascii_point [of n "pd_WindDirection period"]
      parseWindDirection_ascii_other [of n "pd_WindDirection period"]
    by blast
  show ?thesis
    by (rule exI [of _ forecast]) (intro conjI f a1 a2 a3 a4 a5)
qed

theorem periodToForecast_wind_witness:
  "\<not> isl (periodToForecast exampleNWS breezyPeriod 39.0458 (- 76.6413))
   \<and> WindSpeed (projr (periodToForecast exampleNWS breezyPeriod 39.0458 (- 76.6413))) = 10 * 0.44704
   \<and> WindDirection (projr (periodToForecast exampleNWS breezyPeriod 39.0458 (- 76.6413))) = 225"
proof -
  have s: "parseRFC3339 exampleNWS (StartTime breezyPeriod) = Inr 63840913200000000000"
    by (simp add: exampleNWS_def breezyPeriod_def todayPeriod_def exampleParse_def)
  have e: "parseRFC3339 exampleNWS (EndTime breezyPeriod) = Inr 63840956400000000000"
    by (simp add: exampleNWS_def breezyPeriod_def todayPeriod_def exampleParse_def)
  have w: "pd_WindSpeed breezyPeriod = ''10 to 15 mph''" "pd_WindDirection breezyPeriod = ''sw''"
    by (simp_all add: breezyPeriod_def)
  from periodToForecast_wind [OF s e, of "39.0458" "- 76.6413"]
  obtain forecast
    where f: "periodToForecast exampleNWS breezyPeriod 39.0458 (- 76.6413) = Inr forecast"
      and sp: "\<forall>speed. ''10 to 15 mph'' \<noteq> [] \<and> 2 \<le> length (strings_Fields exampleNWS ''10 to 15 mph'') \<and>
                 Atoi (hd (strings_Fields exampleNWS ''10 to 15 mph'')) = Some speed \<longrightarrow>
               WindSpeed forecast = real_of_int speed * 0.44704"
      and di: "strings_ToUpper exampleNWS ''sw'' = asciiToUpper ''sw'' \<longrightarrow>
               (\<forall>i<16. asciiToLower ''sw'' = asciiToLower (compass_points ! i) \<longrightarrow>
                  WindDirection forecast = 22.5 * real i) \<and>
               ((\<forall>i<16. asciiToLower ''sw'' \<noteq> asciiToLower (compass_points ! i)) \<longrightarrow>
                  WindDirection forecast = 0)"
    unfolding w by blast
  have "WindSpeed forecast = 10 * 0.44704"
    using sp [rule_format, of 10] by (simp add: example_tokens)
  moreover have "WindDirection forecast = 225"
    using di [rule_format, OF example_tokens(5), THEN conjunct1, rule_format, of 10]
      example_tokens(6) by simp
  ultimately show ?thesis using f by simp
qed

text \<open>
  A wind-speed string of a single token: its first token \<open>5\<close> is a number, yet the wind
  speed stays 0 instead of \<open>5 * 0.44704\<close>, because the conversion asks for at least two
  tokens.
\<close>

theorem periodToForecast_single_token_counterexample:
  "pd_WindSpeed singleTokenPeriod = ''5'' \<and> strings_Fields exampleNWS ''5'' = [''5'']
   \<and> Atoi ''5'' = Some 5
   \<and> periodToForecast exampleNWS singleTokenPeriod 39.0458 (- 76.6413) = Inr singleTokenForecast
   \<and> WindSpeed singleTokenForecast = 0 \<and> WindSpeed singleTokenForecast \<noteq> 5 * 0.44704"
proof -
  have "periodToForecast exampleNWS singleTokenPeriod 39.0458 (- 76.6413) = Inr singleTokenForecast"
    by (simp add: periodToForecast_def exampleNWS_def singleTokenPeriod_def todayPeriod_def
      exampleParse_def singleTokenForecast_def todayForecast_def zeroForecast_def GetName_def
      asciiFields_def asciiSpace_def parseWindDirection_def directions_def asciiToUpper_def
      asciiUpper_def)
  then show ?thesis
    by (simp add: example_tokens) (simp add: singleTokenPeriod_def singleTokenForecast_def)
qed

section \<open>The address line\<close>

lemma append_if: "(if c then parts @ [x] else parts) = parts @ (if c then [x] else [])"
  by simp

lemma filter_nonempty_concat:
  "filter (\<lambda>part. part \<noteq> []) xs = concat (map (\<lambda>part. if part \<noteq> [] then [part] else []) xs)"
  by (induction xs) simp_all

lemma houseNumberRange_part:
  "(if FromAddress components \<noteq> [] then
      (if ToAddress components \<noteq> [] \<and> ToAddress components \<noteq> FromAddress components
       then [] @ [FromAddress components @ ''-'' @ ToAddress components]
       else [] @ [FromAddress components])
    else []) =
   (if houseNumberRange components \<noteq> [] then [houseNumberRange components] else [])"
  by (simp add: houseNumberRange_def)

lemma buildAddressLine1_filter:
  "buildAddressLine1 components =
     Join (filter (\<lambda>part. part \<noteq> [])
       [houseNumberRange components, PreDirection components, PreType components,
        StreetName components, SuffixType components, SuffixDirection components,
        PreQualifier components, SuffixQualifier components]) '' ''"
  unfolding buildAddressLine1_def append_if Let_def houseNumberRange_part filter_nonempty_concat
  by (simp split del: if_split)

text \<open>
  C6 (as amended). The address line is the space-join of the non-empty ones among: the
  house-number part, the pre-direction, the pre-type, the street name, the suffix type,
  the suffix direction, the pre-qualifier and the suffix-qualifier, in this order. The
  house-number part is there only when the from-address is non-empty; it is then
  \<open>{from}-{to}\<close> if the to-address is non-empty and differs from the from-address, and
  \<open>{from}\<close> otherwise. The components 100, 199, Oak, Ave give \<open>100-199 Oak Ave\<close>, and
  the street name Broadway alone gives \<open>Broadway\<close>.
\<close>

theorem buildAddressLine1_order:
  "buildAddressLine1 components =
     Join (filter (\<lambda>part. part \<noteq> [])
       [houseNumberRange components, PreDirection components, PreType components,
        StreetName components, SuffixType components, SuffixDirection components,
        PreQualifier components, SuffixQualifier components]) '' ''
   \<and> buildAddressLine1 oakComponents = ''100-199 Oak Ave''
   \<and> buildAddressLine1 broadwayComponents = ''Broadway''"
proof (intro conjI)
  show "buildAddressLine1 components =
     Join (filter (\<lambda>part. part \<noteq> [])
       [houseNumberRange components, PreDirection components, PreType components,
        StreetName components, SuffixType components, SuffixDirection components,
        PreQualifier components, SuffixQualifier components]) '' ''"
    by (rule buildAddressLine1_filter)
  show "buildAddressLine1 oakComponents = ''100-199 Oak Ave''"
    by (simp add: buildAddressLine1_filter houseNumberRange_def oakComponents_def zeroComponents_def)
  show "buildAddressLine1 broadwayComponents = ''Broadway''"
    by (simp add: buildAddressLine1_filter houseNumberRange_def broadwayComponents_def zeroComponents_def)
qed

text \<open>
  With a to-address and no from-address, the wording of the specification renders the
  house-number part as \<open>-199\<close>, a non-empty component; the code leaves the part out.
\<close>

theorem buildAddressLine1_counterexample:
  "buildAddressLine1 toOnlyComponents = ''Oak'' \<and> addressLine_spec toOnlyComponents = ''-199 Oak''
   \<and> buildAddressLine1 toOnlyComponents \<noteq> addressLine_spec toOnlyComponents"
  by (simp add: buildAddressLine1_filter houseNumberRange_def addressLine_spec_def
      houseNumberRange_spec_def toOnlyComponents_def zeroComponents_def)

section \<open>The confidence of a forward match\<close>













section \<open>Observations\<close>

lemma observationToForecast_isl:
  "isl (observationToForecast n obs lat lon) \<longleftrightarrow>
     Timestamp obs \<noteq> [] \<and> isl (parseRFC3339 n (Timestamp obs))"
  by (auto simp: observationToForecast_def Let_def split: sum.splits option.splits)

lemma observationToForecast_fields:
  assumes "observationToForecast n obs lat lon = Inr forecast"
  shows "Temperature forecast = (case ob_Temperature obs of None \<Rightarrow> 0 | Some v \<Rightarrow> v)"
    and "Humidity forecast = (case RelativeHumidity obs of None \<Rightarrow> 0 | Some v \<Rightarrow> v)"
    and "Pressure forecast = (case BarometricPressure obs of None \<Rightarrow> 0 | Some v \<Rightarrow> v / 100)"
    and "WindSpeed forecast = (case ob_WindSpeed obs of None \<Rightarrow> 0 | Some v \<Rightarrow> v)"
    and "WindDirection forecast = (case ob_WindDirection obs of None \<Rightarrow> 0 | Some v \<Rightarrow> v)"
    and "Visibility forecast = (case ob_Visibility obs of None \<Rightarrow> 0 | Some v \<Rightarrow> v / 1000)"
    and "CloudCover forecast = 0"
  using assms
  by (auto simp: observationToForecast_def Let_def zeroForecast_def split: sum.splits option.splits)

text \<open>
  C4. Mapping an observation fails only on a timestamp that is present and does not
  parse: no optional numeric field, absent or present, causes an error. In the Forecast
  that is returned, an absent temperature, humidity, pressure, wind speed, wind direction
  or visibility leaves the zero value; a present pressure \<open>v\<close> gives \<open>v / 100\<close>, a
  present visibility \<open>v\<close> gives \<open>v / 1000\<close>, and every other present value is passed
  through unchanged.
\<close>

theorem observationToForecast_values:
  "(isl (observationToForecast n obs lat lon) \<longleftrightarrow>
      Timestamp obs \<noteq> [] \<and> isl (parseRFC3339 n (Timestamp obs)))
   \<and> (\<forall>forecast. observationToForecast n obs lat lon = Inr forecast \<longrightarrow>
        Temperature forecast = (case ob_Temperature obs of None \<Rightarrow> 0 | Some v \<Rightarrow> v)
        \<and> Humidity forecast = (case RelativeHumidity obs of None \<Rightarrow> 0 | Some v \<Rightarrow> v)
        \<and> Pressure forecast = (case BarometricPressure obs of None \<Rightarrow> 0 | Some v \<Rightarrow> v / 100)
        \<and> WindSpeed forecast = (case ob_WindSpeed obs of None \<Rightarrow> 0 | Some v \<Rightarrow> v)
        \<and> WindDirection forecast = (case ob_WindDirection obs of None \<Rightarrow> 0 | Some v \<Rightarrow> v)
        \<and> Visibility forecast = (case ob_Visibility obs of None \<Rightarrow> 0 | Some v \<Rightarrow> v / 1000))"
  using observationToForecast_isl [of n obs lat lon] observationToForecast_fields [of n obs lat lon]
  by blast

lemma example_observations:
  "observationToForecast exampleNWS exampleObservation 39.0458 (- 76.6413) = Inr currentForecast"
  "observationToForecast exampleNWS blankObservation 39.0458 (- 76.6413) =
     Inr (zeroForecast \<lparr> SourceProvider := ''NWS'', ForecastTime := 63840934800000000000,
            ValidTime := 63840934800000000000, CreatedAt := 63840934800000000000,
            UpdatedAt := 63840934800000000000 \<rparr>)"
  by (simp_all add: observationToForecast_def exampleNWS_def exampleObservation_def
      blankObservation_def exampleParse_def currentForecast_def zeroForecast_def GetName_def)

theorem observationToForecast_values_witness:
  "\<not> isl (observationToForecast exampleNWS exampleObservation 39.0458 (- 76.6413))
   \<and> Temperature currentForecast = 20.5 \<and> Humidity currentForecast = 65
   \<and> Pressure currentForecast = 1013.25 \<and> WindSpeed currentForecast = 5.2
   \<and> WindDirection currentForecast = 180 \<and> Visibility currentForecast = 16
   \<and> \<not> isl (observationToForecast exampleNWS blankObservation 39.0458 (- 76.6413))"
proof -
  have t: "parseRFC3339 exampleNWS (Timestamp exampleObservation) = Inr 63840934800000000000"
    "Timestamp blankObservation = []"
    by (simp_all add: exampleNWS_def exampleObservation_def blankObservation_def exampleParse_def)
  have v: "ob_Temperature exampleObservation = Some 20.5" "RelativeHumidity exampleObservation = Some 65"
    "BarometricPressure exampleObservation = Some 101325" "ob_WindSpeed exampleObservation = Some 5.2"
    "ob_WindDirection exampleObservation = Some 180" "ob_Visibility exampleObservation = Some 16000"
    by (simp_all add: exampleObservation_def)
  note w1 = observationToForecast_values [of exampleNWS exampleObservation "39.0458" "- 76.6413"]
  note w2 = observationToForecast_values [of exampleNWS blankObservation "39.0458" "- 76.6413"]
  have ok1: "\<not> isl (observationToForecast exampleNWS exampleObservation 39.0458 (- 76.6413))"
    using w1 [THEN conjunct1] t(1) by simp
  have ok2: "\<not> isl (observationToForecast exampleNWS blankObservation 39.0458 (- 76.6413))"
    using w2 [THEN conjunct1] t(2) by simp
  have "Temperature currentForecast = (case ob_Temperature exampleObservation of None \<Rightarrow> 0 | Some v \<Rightarrow> v)
      \<and> Humidity currentForecast = (case RelativeHumidity exampleObservation of None \<Rightarrow> 0 | Some v \<Rightarrow> v)
      \<and> Pressure currentForecast = (case BarometricPressure exampleObservation of None \<Rightarrow> 0 | Some v \<Rightarrow> v / 100)
      \<and> WindSpeed currentForecast = (case ob_WindSpeed exampleObservation of None \<Rightarrow> 0 | Some v \<Rightarrow> v)
      \<and> WindDirection currentForecast = (case ob_WindDirection exampleObservation of None \<Rightarrow> 0 | Some v \<Rightarrow> v)
      \<and> Visibility currentForecast = (case ob_Visibility exampleObservation of None \<Rightarrow> 0 | Some v \<Rightarrow> v / 1000)"
    using w1 [THEN conjunct2, rule_format, OF example_observations(1)] .
  then show ?thesis
    unfolding v using ok1 ok2 by simp
qed

section \<open>The forecast loop\<close>

lemma forecastLoop_drop:
  "0 \<le> i \<Longrightarrow> maxPeriods \<le> int (length periods) \<Longrightarrow>
   forecastLoop n periods lat lon maxPeriods i forecasts =
     forecasts @ map (\<lambda>p. projr (periodToForecast n p lat lon))
       (filter (timestampsParse n) (drop (nat i) (take (nat maxPeriods) periods)))"
proof (induction n periods lat lon maxPeriods i forecasts rule: forecastLoop.induct)
  case (1 n periods lat lon maxPeriods i forecasts)
  show ?case
  proof (cases "i < maxPeriods")
    case False
    then have "drop (nat i) (take (nat maxPeriods) periods) = []" by simp
    with False show ?thesis by (subst forecastLoop.simps) simp
  next
    case True
    with 1(3,4) have lt: "nat i < length (take (nat maxPeriods) periods)" by simp
    have d: "drop (nat i) (take (nat maxPeriods) periods) =
        periods ! nat i # drop (nat (i + 1)) (take (nat maxPeriods) periods)"
    proof -
      have "nat i < nat maxPeriods" using True 1(3) by simp
      then have "take (nat maxPeriods) periods ! nat i = periods ! nat i" by simp
      moreover have "nat (i + 1) = Suc (nat i)" using 1(3) by simp
      ultimately show ?thesis using Cons_nth_drop_Suc [OF lt] by simp
    qed
    show ?thesis
    proof (cases "periodToForecast n (periods ! nat i) lat lon")
      case (Inl err)
      then have np: "\<not> timestampsParse n (periods ! nat i)"
        using periodToForecast_isl [of n "periods ! nat i" lat lon] by simp
      have "forecastLoop n periods lat lon maxPeriods i forecasts =
              forecastLoop n periods lat lon maxPeriods (i + 1) forecasts"
        by (subst forecastLoop.simps) (simp add: True Inl)
      also have "\<dots> = forecasts @ map (\<lambda>p. projr (periodToForecast n p lat lon))
         (filter (timestampsParse n) (drop (nat (i + 1)) (take (nat maxPeriods) periods)))"
        using 1(1) [OF True Inl] 1(3,4) by simp
      finally show ?thesis by (simp only: d filter.simps np if_False)
    next
      case (Inr forecast)
      then have p: "timestampsParse n (periods ! nat i)"
        using periodToForecast_isl [of n "periods ! nat i" lat lon] by simp
      have "forecastLoop n periods lat lon maxPeriods i forecasts =
              forecastLoop n periods lat lon maxPeriods (i + 1) (forecasts @ [forecast])"
        by (subst forecastLoop.simps) (simp add: True Inr)
      also have "\<dots> = (forecasts @ [forecast]) @ map (\<lambda>p. projr (periodToForecast n p lat lon))
         (filter (timestampsParse n) (drop (nat (i + 1)) (take (nat maxPeriods) periods)))"
        using 1(2) [OF True Inr] 1(3,4) by simp
      finally show ?thesis
        by (simp only: d filter.simps p if_True list.map Inr sum.sel append_assoc append.simps)
    qed
  qed
qed

lemma maxPeriodsOf_le: "maxPeriodsOf days periods \<le> int (length periods)"
  by (simp add: maxPeriodsOf_def Let_def)

lemma forecastLoop_examined:
  "forecastLoop n periods lat lon (maxPeriodsOf days periods) 0 [] =
     map (\<lambda>p. projr (periodToForecast n p lat lon))
       (filter (timestampsParse n) (examinedPeriods days periods))"
  using forecastLoop_drop [of 0 "maxPeriodsOf days periods" periods n lat lon "[]"]
  by (simp add: maxPeriodsOf_le examinedPeriods_def)

lemma sint_double:
  fixes days :: "64 word"
  assumes "- (2 ^ 62) \<le> sint days" "sint days < 2 ^ 62"
  shows "sint (days * 2) = 2 * sint days"
proof -
  have "sint (days * 2) = signed_take_bit 63 (sint days * sint (2 :: 64 word))"
    by (simp add: sint_word_ariths)
  also have "\<dots> = signed_take_bit 63 (2 * sint days)" by (simp add: mult.commute)
  also have "\<dots> = 2 * sint days"
    using assms by (intro signed_take_bit_int_eq_self) simp_all
  finally show ?thesis .
qed

lemma maxPeriodsOf_in_range:
  fixes days :: "64 word"
  assumes "- (2 ^ 62) \<le> sint days" "sint days < 2 ^ 62"
  shows "maxPeriodsOf days periods = min (2 * sint days) (int (length periods))"
  using sint_double [OF assms] by (simp add: maxPeriodsOf_def Let_def min_def)

lemma GetForecast_success:
  assumes "getGridPoint n lat lon = Inr point"
    and "makeRequest n (pt_Forecast point) = Inr forecastData"
    and "unmarshalForecast n forecastData = Inr periods"
  shows "GetForecast n lat lon days =
     Inr (map (\<lambda>p. projr (periodToForecast n p lat lon))
            (filter (timestampsParse n) (examinedPeriods days periods)))"
  using assms by (simp add: GetForecast_def forecastLoop_examined)

lemma GetForecast_Inr:
  assumes "GetForecast n lat lon days = Inr forecasts"
  shows "\<exists>point forecastData periods. getGridPoint n lat lon = Inr point
     \<and> makeRequest n (pt_Forecast point) = Inr forecastData
     \<and> unmarshalForecast n forecastData = Inr periods
     \<and> forecasts = map (\<lambda>p. projr (periodToForecast n p lat lon))
            (filter (timestampsParse n) (examinedPeriods days periods))"
  using assms by (auto simp: GetForecast_def forecastLoop_examined split: sum.splits)

lemma GetForecast_isl:
  "isl (GetForecast n lat lon days) \<longleftrightarrow>
     isl (getGridPoint n lat lon)
     \<or> isl (makeRequest n (pt_Forecast (projr (getGridPoint n lat lon))))
     \<or> isl (unmarshalForecast n (projr (makeRequest n (pt_Forecast (projr (getGridPoint n lat lon))))))"
  by (auto simp: GetForecast_def split: sum.splits)

lemma example_stages:
  "getGridPoint exampleNWS lat lon = Inr examplePoint"
  "makeRequest exampleNWS url = Inr ''{}''"
  "unmarshalForecast exampleNWS raw = Inr [todayPeriod, tonightPeriod]"
  "getGridPoint patchyNWS lat lon = Inr examplePoint"
  "makeRequest patchyNWS url = Inr ''{}''"
  "unmarshalForecast patchyNWS raw = Inr [todayPeriod, brokenPeriod, tonightPeriod]"
  by (simp_all add: getGridPoint_def makeRequest_def exampleNWS_def patchyNWS_def)

lemma example_periods:
  "periodToForecast exampleNWS todayPeriod lat lon = Inr todayForecast"
  "periodToForecast exampleNWS tonightPeriod lat lon = Inr tonightForecast"
  "timestampsParse exampleNWS todayPeriod" "timestampsParse exampleNWS tonightPeriod"
  "periodToForecast patchyNWS todayPeriod lat lon = Inr todayForecast"
  "periodToForecast patchyNWS tonightPeriod lat lon = Inr tonightForecast"
  "timestampsParse patchyNWS todayPeriod" "\<not> timestampsParse patchyNWS brokenPeriod"
  "timestampsParse patchyNWS tonightPeriod"
  by (simp_all add: periodToForecast_def timestampsParse_def exampleNWS_def patchyNWS_def
      todayPeriod_def tonightPeriod_def brokenPeriod_def exampleParse_def todayForecast_def
      tonightForecast_def zeroForecast_def GetName_def asciiFields_def asciiSpace_def Atoi_def
      isDigit_def digitsValue_def parseWindDirection_def directions_def asciiToUpper_def
      asciiUpper_def)

section \<open>The periods that \<open>GetForecast\<close> returns\<close>

text \<open>
  C3 (as amended). When the grid-point lookup, the forecast fetch and the decoding
  succeed and the day count \<open>d\<close> is one whose double fits the 64-bit integer
  (\<open>-2^62 \<le> d < 2^62\<close>), \<open>GetForecast\<close> examines exactly the first
  \<open>max 0 (min (d * 2) n)\<close> of the \<open>n\<close> periods, none for a day count of zero or less,
  and returns, in order, one Forecast for each examined period whose two timestamps
  parse: the conversion of a period fails exactly when one of its timestamps does not
  parse, and such a period is left out without any effect on the others. With a day
  count of 1 and two periods whose timestamps parse, exactly two Forecasts are returned.
\<close>

theorem GetForecast_examined:
  assumes "getGridPoint n lat lon = Inr point"
    and "makeRequest n (pt_Forecast point) = Inr forecastData"
    and "unmarshalForecast n forecastData = Inr periods"
    and "- (2 ^ 62) \<le> sint days" and "sint days < 2 ^ 62"
  shows "examinedPeriods days periods =
           take (nat (max 0 (min (sint days * 2) (int (length periods))))) periods
     \<and> GetForecast n lat lon days =
           Inr (map (\<lambda>p. projr (periodToForecast n p lat lon))
                  (filter (timestampsParse n) (examinedPeriods days periods)))
     \<and> (\<forall>p. isl (periodToForecast n p lat lon) \<longleftrightarrow> \<not> timestampsParse n p)
     \<and> (days = 1 \<and> length periods = 2 \<and> list_all (timestampsParse n) periods \<longrightarrow>
          (\<exists>forecasts. GetForecast n lat lon days = Inr forecasts \<and> length forecasts = 2))"
proof (intro conjI allI impI)
  have m: "maxPeriodsOf days periods = min (sint days * 2) (int (length periods))"
    using maxPeriodsOf_in_range [OF assms(4,5)] by (simp add: mult.commute)
  show e: "examinedPeriods days periods =
           take (nat (max 0 (min (sint days * 2) (int (length periods))))) periods"
    unfolding examinedPeriods_def m by (simp add: max_def)
  show g: "GetForecast n lat lon days =
           Inr (map (\<lambda>p. projr (periodToForecast n p lat lon))
                  (filter (timestampsParse n) (examinedPeriods days periods)))"
    by (rule GetForecast_success [OF assms(1-3)])
  show "isl (periodToForecast n p lat lon) \<longleftrightarrow> \<not> timestampsParse n p" for p
    using periodToForecast_isl [of n p lat lon] by blast
  assume a: "days = 1 \<and> length periods = 2 \<and> list_all (timestampsParse n) periods"
  then have "examinedPeriods days periods = periods"
    unfolding e by simp
  moreover have "filter (timestampsParse n) periods = periods"
    using a by (simp add: list_all_iff)
  ultimately show "\<exists>forecasts. GetForecast n lat lon days = Inr forecasts \<and> length forecasts = 2"
    using g a by simp
qed

theorem GetForecast_examined_witness:
  "GetForecast exampleNWS 39.0458 (- 76.6413) 1 = Inr [todayForecast, tonightForecast]
   \<and> GetForecast patchyNWS 39.0458 (- 76.6413) 2 = Inr [todayForecast, tonightForecast]
   \<and> GetForecast patchyNWS 39.0458 (- 76.6413) 1 = Inr [todayForecast]
   \<and> GetForecast patchyNWS 39.0458 (- 76.6413) 0 = Inr []"
proof -
  have r: "- (2 ^ 62) \<le> sint (1 :: 64 word)" "sint (1 :: 64 word) < 2 ^ 62"
    "- (2 ^ 62) \<le> sint (2 :: 64 word)" "sint (2 :: 64 word) < 2 ^ 62"
    "- (2 ^ 62) \<le> sint (0 :: 64 word)" "sint (0 :: 64 word) < 2 ^ 62"
    by simp_all
  note a = GetForecast_examined [OF example_stages(1,2,3) r(1,2), of "39.0458" "- 76.6413"]
  note b = GetForecast_examined [OF example_stages(4,5,6) r(3,4), of "39.0458" "- 76.6413"]
  note c = GetForecast_examined [OF example_stages(4,5,6) r(1,2), of "39.0458" "- 76.6413"]
  note d = GetForecast_examined [OF example_stages(4,5,6) r(5,6), of "39.0458" "- 76.6413"]
  have "GetForecast exampleNWS 39.0458 (- 76.6413) 1 = Inr [todayForecast, tonightForecast]"
    using a [THEN conjunct2, THEN conjunct1]
    unfolding a [THEN conjunct1] by (simp add: example_periods)
  moreover have "GetForecast patchyNWS 39.0458 (- 76.6413) 2 = Inr [todayForecast, tonightForecast]"
    using b [THEN conjunct2, THEN conjunct1]
    unfolding b [THEN conjunct1] by (simp add: example_periods)
  moreover have "GetForecast patchyNWS 39.0458 (- 76.6413) 1 = Inr [todayForecast]"
    using c [THEN conjunct2, THEN conjunct1]
    unfolding c [THEN conjunct1] by (simp add: example_periods)
  moreover have "GetForecast patchyNWS 39.0458 (- 76.6413) 0 = Inr []"
    using d [THEN conjunct2, THEN conjunct1]
    unfolding d [THEN conjunct1] by (simp add: example_periods)
  ultimately show ?thesis by blast
qed

text \<open>
  For a negative day count the number of periods examined is not \<open>min (d * 2) n\<close>: with
  \<open>d = -1\<close> and two periods that number would be \<open>-2\<close>, and the loop examines none.
\<close>

theorem GetForecast_negative_days_counterexample:
  "GetForecast exampleNWS 39.0458 (- 76.6413) (- 1) = Inr []
   \<and> examinedPeriods (- 1) [todayPeriod, tonightPeriod] = []
   \<and> min (sint (- 1 :: 64 word) * 2) (int (length [todayPeriod, tonightPeriod])) = - 2
   \<and> int (length (examinedPeriods (- 1) [todayPeriod, tonightPeriod]))
        \<noteq> min (sint (- 1 :: 64 word) * 2) (int (length [todayPeriod, tonightPeriod]))"
proof -
  have e: "examinedPeriods (- 1) [todayPeriod, tonightPeriod] = []"
    by (simp add: examinedPeriods_def maxPeriodsOf_def)
  have "GetForecast exampleNWS 39.0458 (- 76.6413) (- 1) = Inr []"
    using GetForecast_success [OF example_stages(1,2,3), of "39.0458" "- 76.6413" "- 1"]
    by (simp add: e)
  with e show ?thesis by simp
qed

section \<open>Errors and empty results of \<open>GetForecast\<close>\<close>

text \<open>
  \<open>GetForecast\<close> fails exactly when the grid-point lookup, the forecast fetch or the
  decoding of the forecast fails; and whenever the double of the day count does not
  overflow, a day count of zero or less gives the empty list.
\<close>

lemma GetForecast_fails_iff:
  "isl (GetForecast n lat lon days) \<longleftrightarrow>
     isl (getGridPoint n lat lon)
     \<or> isl (makeRequest n (pt_Forecast (projr (getGridPoint n lat lon))))
     \<or> isl (unmarshalForecast n (projr (makeRequest n (pt_Forecast (projr (getGridPoint n lat lon))))))"
  by (rule GetForecast_isl)

lemma GetForecast_nonpositive_days:
  assumes "getGridPoint n lat lon = Inr point"
    and "makeRequest n (pt_Forecast point) = Inr forecastData"
    and "unmarshalForecast n forecastData = Inr periods"
    and "- (2 ^ 62) \<le> sint days" and "sint days \<le> 0"
  shows "GetForecast n lat lon days = Inr []"
proof -
  have "sint days < 2 ^ 62" using assms(5) by simp
  then have "maxPeriodsOf days periods = min (2 * sint days) (int (length periods))"
    using maxPeriodsOf_in_range [OF assms(4)] by simp
  then have "examinedPeriods days periods = []"
    using assms(5) by (simp add: examinedPeriods_def)
  then show ?thesis
    using GetForecast_success [OF assms(1-3), of days] by simp
qed

lemma GetForecast_no_parsable_period:
  assumes "getGridPoint n lat lon = Inr point"
    and "makeRequest n (pt_Forecast point) = Inr forecastData"
    and "unmarshalForecast n forecastData = Inr periods"
    and "\<forall>p \<in> set (examinedPeriods days periods). \<not> timestampsParse n p"
  shows "GetForecast n lat lon days = Inr []"
  using GetForecast_success [OF assms(1-3), of days] assms(4) by (simp add: filter_empty_conv)

text \<open>
  C10. A negative day count is meant to give the empty list and no error. At the day
  count \<open>-4611686018427387905\<close> (that is \<open>-2^62 - 1\<close>) it does not: the product
  \<open>days * 2\<close> wraps around to \<open>2^63 - 2\<close>, the cap replaces it by the number of periods,
  and the call returns a Forecast for every period.
\<close>

theorem GetForecast_negative_days_overflow:
  "sint (- 4611686018427387905 :: 64 word) = - 4611686018427387905
   \<and> sint ((- 4611686018427387905 :: 64 word) * 2) = 9223372036854775806
   \<and> GetForecast exampleNWS 39.0458 (- 76.6413) (- 4611686018427387905)
        = Inr [todayForecast, tonightForecast]"
proof -
  have e: "examinedPeriods (- 4611686018427387905) [todayPeriod, tonightPeriod]
             = [todayPeriod, tonightPeriod]"
    by (simp add: examinedPeriods_def maxPeriodsOf_def)
  have "GetForecast exampleNWS 39.0458 (- 76.6413) (- 4611686018427387905)
        = Inr [todayForecast, tonightForecast]"
    using GetForecast_success [OF example_stages(1,2,3), of "39.0458" "- 76.6413" "- 4611686018427387905"]
    by (simp add: e example_periods)
  then show ?thesis by simp
qed

section \<open>The data-model invariant on what the adapter returns\<close>

lemma GetCurrentWeather_Inr:
  assumes "GetCurrentWeather n lat lon = Inr forecast"
  shows "\<exists>obsData obs. unmarshalObservation n obsData = Inr obs
           \<and> observationToForecast n obs lat lon = Inr forecast"
  using assms by (auto simp: GetCurrentWeather_def split: sum.splits list.splits)

lemma observationToForecast_invariant:
  assumes "observationToForecast n obs lat lon = Inr forecast"
  shows "forecast_invariant forecast \<longleftrightarrow> observation_in_range obs"
  unfolding forecast_invariant_def observation_in_range_def
    observationToForecast_fields [OF assms]
  by (simp split: option.splits)

lemma periodToForecast_invariant:
  assumes "periodToForecast n period lat lon = Inr forecast"
  shows "forecast_invariant forecast \<longleftrightarrow> period_temperature_ok period"
  unfolding forecast_invariant_def period_temperature_ok_def periodToForecast_fields [OF assms]
  using parseWindDirection_range [of n "pd_WindDirection period"] by simp

text \<open>
  C1 (as amended). A Forecast returned by \<open>GetCurrentWeather\<close> is the conversion of a
  decoded observation; its cloud cover is 0, and it satisfies the invariant exactly
  when the values the observation carries do: a temperature of at least -273.15, a
  humidity in [0,100], a wind direction in [0,360). A Forecast returned by
  \<open>GetForecast\<close> is the conversion of one of the decoded periods; its humidity and its
  cloud cover are 0 and its wind direction lies in [0,360), and it satisfies the
  invariant exactly when the temperature of the period, converted to Celsius, is at
  least -273.15. The adapter checks none of the upstream values.
\<close>

theorem adapter_forecast_invariant:
  "(GetCurrentWeather n lat lon = Inr forecast \<longrightarrow>
      (\<exists>obsData obs. unmarshalObservation n obsData = Inr obs
          \<and> observationToForecast n obs lat lon = Inr forecast
          \<and> CloudCover forecast = 0
          \<and> (forecast_invariant forecast \<longleftrightarrow> observation_in_range obs)))
   \<and> (GetForecast n lat lon days = Inr forecasts \<longrightarrow>
      (\<exists>forecastData periods. unmarshalForecast n forecastData = Inr periods
          \<and> (\<forall>f \<in> set forecasts.
                Humidity f = 0 \<and> CloudCover f = 0 \<and> 0 \<le> WindDirection f \<and> WindDirection f < 360
                \<and> (\<exists>period \<in> set periods. periodToForecast n period lat lon = Inr f
                      \<and> (forecast_invariant f \<longleftrightarrow> period_temperature_ok period)))))"
proof (intro conjI impI)
  assume "GetCurrentWeather n lat lon = Inr forecast"
  then obtain obsData obs where o: "unmarshalObservation n obsData = Inr obs"
    and c: "observationToForecast n obs lat lon = Inr forecast"
    using GetCurrentWeather_Inr by blast
  show "\<exists>obsData obs. unmarshalObservation n obsData = Inr obs
          \<and> observationToForecast n obs lat lon = Inr forecast
          \<and> CloudCover forecast = 0
          \<and> (forecast_invariant forecast \<longleftrightarrow> observation_in_range obs)"
    using o c observationToForecast_fields(7) [OF c] observationToForecast_invariant [OF c]
    by blast
next
  assume "GetForecast n lat lon days = Inr forecasts"
  then obtain forecastData periods where u: "unmarshalForecast n forecastData = Inr periods"
    and fs: "forecasts = map (\<lambda>p. projr (periodToForecast n p lat lon))
            (filter (timestampsParse n) (examinedPeriods days periods))"
    using GetForecast_Inr by blast
  have "Humidity f = 0 \<and> CloudCover f = 0 \<and> 0 \<le> WindDirection f \<and> WindDirection f < 360
        \<and> (\<exists>period \<in> set periods. periodToForecast n period lat lon = Inr f
              \<and> (forecast_invariant f \<longleftrightarrow> period_temperature_ok period))"
    if "f \<in> set forecasts" for f
  proof -
    from that obtain period where p: "period \<in> set (examinedPeriods days periods)"
      and tp: "timestampsParse n period" and f: "f = projr (periodToForecast n period lat lon)"
      unfolding fs by auto
    have "\<not> isl (periodToForecast n period lat lon)"
      using tp periodToForecast_isl [of n period lat lon] by simp
    then have c: "periodToForecast n period lat lon = Inr f"
      using f by (cases "periodToForecast n period lat lon") simp_all
    have "period \<in> set periods"
      using p unfolding examinedPeriods_def by (rule in_set_takeD)
    then show ?thesis
      using c periodToForecast_fields [OF c] periodToForecast_invariant [OF c]
        parseWindDirection_range [of n "pd_WindDirection period"]
      by auto
  qed
  with u show "\<exists>forecastData periods. unmarshalForecast n forecastData = Inr periods
          \<and> (\<forall>f \<in> set forecasts.
                Humidity f = 0 \<and> CloudCover f = 0 \<and> 0 \<le> WindDirection f \<and> WindDirection f < 360
                \<and> (\<exists>period \<in> set periods. periodToForecast n period lat lon = Inr f
                      \<and> (forecast_invariant f \<longleftrightarrow> period_temperature_ok period)))"
    by blast
qed

lemma example_current:
  "GetCurrentWeather exampleNWS lat lon = Inr currentForecast"
  "GetCurrentWeather humidNWS lat lon = Inr humidForecast"
  by (simp_all add: GetCurrentWeather_def getGridPoint_def makeRequest_def exampleNWS_def
      humidNWS_def observationToForecast_def exampleObservation_def humidObservation_def
      exampleParse_def currentForecast_def humidForecast_def zeroForecast_def GetName_def)

theorem adapter_forecast_invariant_witness:
  "GetCurrentWeather exampleNWS 39.0458 (- 76.6413) = Inr currentForecast
   \<and> CloudCover currentForecast = 0
   \<and> GetForecast exampleNWS 39.0458 (- 76.6413) 1 = Inr [todayForecast, tonightForecast]
   \<and> Humidity todayForecast = 0 \<and> CloudCover todayForecast = 0
   \<and> 0 \<le> WindDirection tonightForecast \<and> WindDirection tonightForecast < 360"
proof -
  have g: "GetForecast exampleNWS 39.0458 (- 76.6413) 1 = Inr [todayForecast, tonightForecast]"
    using GetForecast_success [OF example_stages(1,2,3), of "39.0458" "- 76.6413" 1]
    by (simp add: examinedPeriods_def maxPeriodsOf_def example_periods)
  note w = adapter_forecast_invariant [of exampleNWS "39.0458" "- 76.6413" currentForecast 1
      "[todayForecast, tonightForecast]"]
  from w [THEN conjunct1, rule_format, OF example_current(1)]
  have c: "CloudCover currentForecast = 0" by blast
  from w [THEN conjunct2, rule_format, OF g]
  have "\<forall>f \<in> set [todayForecast, tonightForecast].
          Humidity f = 0 \<and> CloudCover f = 0 \<and> 0 \<le> WindDirection f \<and> WindDirection f < 360"
    by blast
  then show ?thesis using c g example_current(1) by simp
qed

text \<open>
  An observation with a relative humidity of 150 is accepted without error, and the
  Forecast that \<open>GetCurrentWeather\<close> returns carries this humidity.
\<close>

theorem GetCurrentWeather_humidity_counterexample:
  "GetCurrentWeather humidNWS 39.0458 (- 76.6413) = Inr humidForecast
   \<and> Humidity humidForecast = 150 \<and> \<not> forecast_invariant humidForecast"
  by (simp add: example_current(2)) (simp add: humidForecast_def forecast_invariant_def)

section \<open>Forward and reverse geocoding\<close>

lemma placesLoop_map:
  "placesLoop c address matches places =
     places @ map (\<lambda>match. projr (addressMatchToPlace c match address)) matches"
  by (induction matches arbitrary: places) (simp_all add: addressMatchToPlace_def)

lemma placesLoop_Nil_iff: "placesLoop c address matches [] = [] \<longleftrightarrow> matches = []"
  by (simp add: placesLoop_map)

text \<open>
  C7. \<open>GeocodeAddress\<close> never succeeds with an empty list. When the request and the
  decoding succeed and no usable match remains after the conversion of the matches
  (which is the case exactly when the response has no match, since no conversion
  fails), it fails with the message \<open>no geocoding results found for address: ...\<close>.
  The failures of the request and of the decoding carry other messages, which never
  coincide with this one.
\<close>

theorem GeocodeAddress_no_results:
  "(\<forall>places. GeocodeAddress c address = Inr places \<longrightarrow> places \<noteq> [])
   \<and> (\<forall>data matches.
         cs_makeRequest c (geocodeURL c address) = Inr data \<and> unmarshalGeocode c data = Inr matches \<longrightarrow>
           (placesLoop c address matches [] = [] \<longleftrightarrow> matches = [])
           \<and> (placesLoop c address matches [] = [] \<longrightarrow>
                GeocodeAddress c address = Inl (''no geocoding results found for address: '' @ address))
           \<and> (placesLoop c address matches [] \<noteq> [] \<longrightarrow>
                GeocodeAddress c address = Inr (placesLoop c address matches [])))
   \<and> (\<forall>err. cs_makeRequest c (geocodeURL c address) = Inl err \<longrightarrow>
         GeocodeAddress c address = Inl (''geocoding request failed: '' @ err)
         \<and> ''geocoding request failed: '' @ err \<noteq> ''no geocoding results found for address: '' @ address)
   \<and> (\<forall>data err.
         cs_makeRequest c (geocodeURL c address) = Inr data \<and> unmarshalGeocode c data = Inl err \<longrightarrow>
         GeocodeAddress c address = Inl (''failed to parse geocoding response: '' @ err)
         \<and> ''failed to parse geocoding response: '' @ err
              \<noteq> ''no geocoding results found for address: '' @ address)"
proof (intro conjI allI impI)
  fix places assume "GeocodeAddress c address = Inr places"
  then show "places \<noteq> []"
    by (auto simp: GeocodeAddress_def Let_def split: sum.splits if_splits)
next
  fix data matches
  assume a: "cs_makeRequest c (geocodeURL c address) = Inr data \<and> unmarshalGeocode c data = Inr matches"
  show "placesLoop c address matches [] = [] \<longleftrightarrow> matches = []"
    by (rule placesLoop_Nil_iff)
  show "GeocodeAddress c address = Inl (''no geocoding results found for address: '' @ address)"
    if "placesLoop c address matches [] = []"
    using a that by (simp add: GeocodeAddress_def)
  show "GeocodeAddress c address = Inr (placesLoop c address matches [])"
    if "placesLoop c address matches [] \<noteq> []"
    using a that by (simp add: GeocodeAddress_def)
next
  fix err assume "cs_makeRequest c (geocodeURL c address) = Inl err"
  then show "GeocodeAddress c address = Inl (''geocoding request failed: '' @ err)"
    by (simp add: GeocodeAddress_def)
  show "''geocoding request failed: '' @ err \<noteq> ''no geocoding results found for address: '' @ address"
    by simp
next
  fix data err
  assume "cs_makeRequest c (geocodeURL c address) = Inr data \<and> unmarshalGeocode c data = Inl err"
  then show "GeocodeAddress c address = Inl (''failed to parse geocoding response: '' @ err)"
    by (simp add: GeocodeAddress_def)
  show "''failed to parse geocoding response: '' @ err
          \<noteq> ''no geocoding results found for address: '' @ address"
    by simp
qed

lemma example_census_requests:
  "cs_makeRequest exampleCensus url = Inr ''{}''" "cs_makeRequest emptyCensus url = Inr ''{}''"
  "unmarshalGeocode exampleCensus raw = Inr [mainStMatch]" "unmarshalGeocode emptyCensus raw = Inr []"
  "unmarshalReverse exampleCensus raw = Inr [mainStReverse, oakReverse]"
  "unmarshalReverse emptyCensus raw = Inr []"
  by (simp_all add: cs_makeRequest_def exampleCensus_def emptyCensus_def)

theorem GeocodeAddress_no_results_witness:
  "GeocodeAddress emptyCensus ''1 Nowhere Rd'' = Inl ''no geocoding results found for address: 1 Nowhere Rd''
   \<and> GeocodeAddress exampleCensus ''123 Main St, Anytown, ST''
        = Inr (placesLoop exampleCensus ''123 Main St, Anytown, ST'' [mainStMatch] [])
   \<and> placesLoop exampleCensus ''123 Main St, Anytown, ST'' [mainStMatch] [] \<noteq> []"
proof -
  note e = GeocodeAddress_no_results [of emptyCensus "''1 Nowhere Rd''", THEN conjunct2, THEN conjunct1,
      rule_format, OF conjI, OF example_census_requests(2) example_census_requests(4)]
  note m = GeocodeAddress_no_results [of exampleCensus "''123 Main St, Anytown, ST''", THEN conjunct2,
      THEN conjunct1, rule_format, OF conjI, OF example_census_requests(1) example_census_requests(3)]
  have n: "placesLoop exampleCensus ''123 Main St, Anytown, ST'' [mainStMatch] [] \<noteq> []"
    using m [THEN conjunct1] by simp
  have "placesLoop emptyCensus ''1 Nowhere Rd'' [] [] = []"
    using e [THEN conjunct1] by simp
  then have "GeocodeAddress emptyCensus ''1 Nowhere Rd''
      = Inl (''no geocoding results found for address: '' @ ''1 Nowhere Rd'')"
    using e [THEN conjunct2, THEN conjunct1] by blast
  moreover have "GeocodeAddress exampleCensus ''123 Main St, Anytown, ST''
        = Inr (placesLoop exampleCensus ''123 Main St, Anytown, ST'' [mainStMatch] [])"
    using m [THEN conjunct2, THEN conjunct2] n by blast
  ultimately show ?thesis using n by simp
qed

lemma reverseMatchToPlace_built:
  "\<exists>place. reverseMatchToPlace c match lat lon = Inr place
             \<and> builtFromReverseMatch c match lat lon place"
  by (simp add: reverseMatchToPlace_def builtFromReverseMatch_def zeroPlace_def cs_GetName_def)

lemma ReverseGeocode_Inr:
  assumes "ReverseGeocode c lat lon = Inr place"
  shows "\<exists>data match rest. cs_makeRequest c (reverseURL c lat lon) = Inr data
           \<and> unmarshalReverse c data = Inr (match # rest)
           \<and> reverseMatchToPlace c match lat lon = Inr place"
  using assms by (auto simp: ReverseGeocode_def split: sum.splits list.splits)

text \<open>
  C8. \<open>ReverseGeocode\<close> succeeds only when the request and the decoding succeed and the
  decoded response has at least one match; it fails when the response has no match
  (and when the request or the decoding fails). When it succeeds, every field of the
  Place is the one derived from the first match and from the coordinates of the call,
  whatever the other matches are, and the confidence is 0.9.
\<close>

theorem ReverseGeocode_first_match:
  "(\<forall>place. ReverseGeocode c lat lon = Inr place \<longrightarrow>
       Confidence place = 0.9
       \<and> (\<exists>data match rest. cs_makeRequest c (reverseURL c lat lon) = Inr data
             \<and> unmarshalReverse c data = Inr (match # rest)
             \<and> builtFromReverseMatch c match lat lon place))
   \<and> (\<forall>data. cs_makeRequest c (reverseURL c lat lon) = Inr data \<longrightarrow>
         (unmarshalReverse c data = Inr [] \<longrightarrow>
            ReverseGeocode c lat lon =
              Inl (''no reverse geocoding results found for coordinates: '' @
                     cs_fmt_f c lat @ '', '' @ cs_fmt_f c lon))
         \<and> (\<forall>err. unmarshalReverse c data = Inl err \<longrightarrow>
               ReverseGeocode c lat lon = Inl (''failed to parse reverse geocoding response: '' @ err))
         \<and> (\<forall>match rest. unmarshalReverse c data = Inr (match # rest) \<longrightarrow>
               ReverseGeocode c lat lon = reverseMatchToPlace c match lat lon
               \<and> (\<exists>place. ReverseGeocode c lat lon = Inr place
                     \<and> builtFromReverseMatch c match lat lon place)))
   \<and> (\<forall>err. cs_makeRequest c (reverseURL c lat lon) = Inl err \<longrightarrow>
         ReverseGeocode c lat lon = Inl (''reverse geocoding request failed: '' @ err))"
proof (intro conjI allI impI)
  fix place assume a: "ReverseGeocode c lat lon = Inr place"
  then obtain data match rest where r: "cs_makeRequest c (reverseURL c lat lon) = Inr data"
    and u: "unmarshalReverse c data = Inr (match # rest)"
    and p: "reverseMatchToPlace c match lat lon = Inr place"
    using ReverseGeocode_Inr by blast
  have b: "builtFromReverseMatch c match lat lon place"
    using reverseMatchToPlace_built [of c match lat lon] p by simp
  then show "Confidence place = 0.9"
    by (simp add: builtFromReverseMatch_def)
  show "\<exists>data match rest. cs_makeRequest c (reverseURL c lat lon) = Inr data
             \<and> unmarshalReverse c data = Inr (match # rest)
             \<and> builtFromReverseMatch c match lat lon place"
    using r u b by blast
next
  fix data assume "cs_makeRequest c (reverseURL c lat lon) = Inr data"
    and "unmarshalReverse c data = Inr []"
  then show "ReverseGeocode c lat lon =
      Inl (''no reverse geocoding results found for coordinates: '' @
             cs_fmt_f c lat @ '', '' @ cs_fmt_f c lon)"
    by (simp add: ReverseGeocode_def)
next
  fix data err assume "cs_makeRequest c (reverseURL c lat lon) = Inr data"
    and "unmarshalReverse c data = Inl err"
  then show "ReverseGeocode c lat lon = Inl (''failed to parse reverse geocoding response: '' @ err)"
    by (simp add: ReverseGeocode_def)
next
  fix data match rest assume "cs_makeRequest c (reverseURL c lat lon) = Inr data"
    and "unmarshalReverse c data = Inr (match # rest)"
  then show e: "ReverseGeocode c lat lon = reverseMatchToPlace c match lat lon"
    by (simp add: ReverseGeocode_def)
  show "\<exists>place. ReverseGeocode c lat lon = Inr place \<and> builtFromReverseMatch c match lat lon place"
    unfolding e by (rule reverseMatchToPlace_built)
next
  fix err assume "cs_makeRequest c (reverseURL c lat lon) = Inl err"
  then show "ReverseGeocode c lat lon = Inl (''reverse geocoding request failed: '' @ err)"
    by (simp add: ReverseGeocode_def)
qed

theorem ReverseGeocode_first_match_witness:
  "\<not> isl (ReverseGeocode exampleCensus 39.0458 (- 76.6413))
   \<and> builtFromReverseMatch exampleCensus mainStReverse 39.0458 (- 76.6413)
        (projr (ReverseGeocode exampleCensus 39.0458 (- 76.6413)))
   \<and> Confidence (projr (ReverseGeocode exampleCensus 39.0458 (- 76.6413))) = 0.9
   \<and> DisplayName (projr (ReverseGeocode exampleCensus 39.0458 (- 76.6413)))
        = ''123 Main St, Anytown, ST, 12345''
   \<and> AddressLine1 (projr (ReverseGeocode exampleCensus 39.0458 (- 76.6413))) = ''123 Main St''
   \<and> isl (ReverseGeocode emptyCensus 39.0458 (- 76.6413))"
proof -
  note w = ReverseGeocode_first_match [of exampleCensus "39.0458" "- 76.6413"]
  note v = ReverseGeocode_first_match [of emptyCensus "39.0458" "- 76.6413"]
  obtain place where p: "ReverseGeocode exampleCensus 39.0458 (- 76.6413) = Inr place"
    and b: "builtFromReverseMatch exampleCensus mainStReverse 39.0458 (- 76.6413) place"
    using w [THEN conjunct2, THEN conjunct1, rule_format, OF example_census_requests(1),
        THEN conjunct2, THEN conjunct2, rule_format, OF example_census_requests(5)]
    by blast
  have c: "Confidence place = 0.9"
    using w [THEN conjunct1, rule_format, OF p] by blast
  have d: "DisplayName place = ''123 Main St, Anytown, ST, 12345''"
    using b by (simp add: builtFromReverseMatch_def mainStReverse_def)
  have a: "AddressLine1 place = ''123 Main St''"
    using b
    by (simp add: builtFromReverseMatch_def mainStReverse_def mainStMatch_def zeroComponents_def
        buildAddressLine1_filter houseNumberRange_def)
  have "isl (ReverseGeocode emptyCensus 39.0458 (- 76.6413))"
    using v [THEN conjunct2, THEN conjunct1, rule_format, OF example_census_requests(2),
        THEN conjunct1, rule_format, OF example_census_requests(6)]
    by simp
  then show ?thesis using p b c d a by simp
qed

section \<open>The cache wrapper\<close>

text \<open>
  C9. With a non-empty prefix, \<open>Get\<close>, \<open>Set\<close>, \<open>Delete\<close>, \<open>Exists\<close>, \<open>SetNX\<close> and \<open>GetTTL\<close>
  of the wrapper return what the same method of the store returns for the key
  \<open>prefix:key\<close>, value, error and new state of the store alike; with the empty prefix,
  what it returns for the bare key. \<open>Clear\<close> and \<open>Close\<close> are those of the store.
\<close>

theorem RequestCache_forwards:
  "(prefix c \<noteq> [] \<longrightarrow>
      rc_Get c ctx key s = kv_Get (store c) ctx (prefix c @ '':'' @ key) s
      \<and> rc_Set c ctx key val ttl s = kv_Set (store c) ctx (prefix c @ '':'' @ key) val ttl s
      \<and> rc_Delete c ctx key s = kv_Delete (store c) ctx (prefix c @ '':'' @ key) s
      \<and> rc_Exists c ctx key s = kv_Exists (store c) ctx (prefix c @ '':'' @ key) s
      \<and> rc_SetNX c ctx key val ttl s = kv_SetNX (store c) ctx (prefix c @ '':'' @ key) val ttl s
      \<and> rc_GetTTL c ctx key s = kv_GetTTL (store c) ctx (prefix c @ '':'' @ key) s)
   \<and> (prefix c = [] \<longrightarrow>
      rc_Get c ctx key s = kv_Get (store c) ctx key s
      \<and> rc_Set c ctx key val ttl s = kv_Set (store c) ctx key val ttl s
      \<and> rc_Delete c ctx key s = kv_Delete (store c) ctx key s
      \<and> rc_Exists c ctx key s = kv_Exists (store c) ctx key s
      \<and> rc_SetNX c ctx key val ttl s = kv_SetNX (store c) ctx key val ttl s
      \<and> rc_GetTTL c ctx key s = kv_GetTTL (store c) ctx key s)
   \<and> rc_Clear c ctx s = kv_Clear (store c) ctx s
   \<and> rc_Close c s = kv_Close (store c) s"
  by (simp add: rc_Get_def rc_Set_def rc_Delete_def rc_Exists_def rc_SetNX_def rc_GetTTL_def
      rc_Clear_def rc_Close_def prefixKey_def)

theorem RequestCache_forwards_witness:
  "rc_Set weatherCache () ''k'' ''v'' 60 [] = (None, [(''weather:k'', ''v'')])
   \<and> rc_Get weatherCache () ''k'' [(''weather:k'', ''v'')] = ((''v'', None), [(''weather:k'', ''v'')])
   \<and> rc_Get weatherCache () ''k'' [(''k'', ''v'')] = (([], Some ''key not found''), [(''k'', ''v'')])
   \<and> rc_Get bareCache () ''k'' [(''k'', ''v'')] = ((''v'', None), [(''k'', ''v'')])
   \<and> rc_SetNX bareCache () ''k'' ''w'' 60 [(''k'', ''v'')] = ((False, None), [(''k'', ''v'')])
   \<and> rc_Close weatherCache [] = (Some ''connection already closed'', [])"
proof -
  have p: "prefix weatherCache = ''weather''" "prefix weatherCache \<noteq> []" "prefix bareCache = []"
    "store weatherCache = listStore" "store bareCache = listStore"
    by (simp_all add: weatherCache_def bareCache_def)
  note w = RequestCache_forwards [of weatherCache, THEN conjunct1, rule_format, OF p(2), unfolded p]
  note b = RequestCache_forwards [of bareCache, THEN conjunct2, THEN conjunct1, rule_format, OF p(3),
      unfolded p]
  note z = RequestCache_forwards [of weatherCache, THEN conjunct2, THEN conjunct2, unfolded p]
  have "rc_Set weatherCache () ''k'' ''v'' 60 [] = (None, [(''weather:k'', ''v'')])"
    using w [of "()" "''k''" "[]" "''v''" 60] by (simp add: listStore_def)
  moreover have "rc_Get weatherCache () ''k'' [(''weather:k'', ''v'')]
      = ((''v'', None), [(''weather:k'', ''v'')])"
    using w [of "()" "''k''" "[(''weather:k'', ''v'')]"] by (simp add: listStore_def)
  moreover have "rc_Get weatherCache () ''k'' [(''k'', ''v'')]
      = (([], Some ''key not found''), [(''k'', ''v'')])"
    using w [of "()" "''k''" "[(''k'', ''v'')]"] by (simp add: listStore_def)
  moreover have "rc_Get bareCache () ''k'' [(''k'', ''v'')] = ((''v'', None), [(''k'', ''v'')])"
    using b [of "()" "''k''" "[(''k'', ''v'')]"] by (simp add: listStore_def)
  moreover have "rc_SetNX bareCache () ''k'' ''w'' 60 [(''k'', ''v'')] = ((False, None), [(''k'', ''v'')])"
    using b [of "()" "''k''" "[(''k'', ''v'')]" "''w''" 60] by (simp add: listStore_def)
  moreover have "rc_Close weatherCache [] = (Some ''connection already closed'', [])"
    using z [of "()" "[]"] by (simp add: listStore_def)
  ultimately show ?thesis by blast
qed

end
